theory Spec2Isabelle
  imports Complex_Main
begin

section \<open>Data model of the physics engine (physics.js)\<close>

text \<open>
  JavaScript numbers are modelled as real numbers: rounding, overflow and the special
  values of IEEE arithmetic are left out of this part of the development. The divisions
  of the source by \<open>mass\<close>, by \<open>width / 2\<close> and by \<open>height / 2\<close> are where
  a finite input can yield a non-finite value; theorems that depend on them carry the
  hypothesis that the divisor is not zero. A second model with the special values covers
  the influence and aggregation code, and is shown to agree with this one on regions of
  non-zero width and height; it also covers the loop of \<open>update\<close>, there with the
  overflow of finite results.
\<close>

text \<open>\<open>{ x, y }\<close> objects used for \<open>position\<close> and \<open>velocity\<close>.\<close>

record vec =
  vec_x :: real
  vec_y :: real

text \<open>
  A region as stored by \<open>addRegion\<close>: the ellipse box of the caller followed by the
  physics state and the per-region constants.
\<close>

record region =
  reg_x :: real
  reg_y :: real
  width :: real
  height :: real
  position :: vec
  velocity :: vec
  stiffness :: real
  damping :: real
  delayFrames :: nat
  phaseOffset :: real

text \<open>
  The \<open>force\<close> argument of \<open>update\<close> and \<open>applyForceAtPosition\<close>. A component may
  be missing (\<open>undefined\<close>); the source reads it as \<open>force.x || 0\<close>.
\<close>

record force =
  force_x :: "real option"
  force_y :: "real option"

text \<open>An entry of \<open>forceHistory\<close>; \<open>patternId\<close> is \<open>None\<close> when absent.\<close>

record entry =
  ent_x :: real
  ent_y :: real
  patternId :: "string option"

record press_point =
  pp_x :: real
  pp_y :: real
  depth :: real
  targetDepth :: real

record vertex =
  baseX :: real
  baseY :: real
  vtx_dx :: real
  vtx_dy :: real

text \<open>An element of the array returned by \<open>calculateVertexDisplacements\<close>.\<close>

record sample =
  smp_x :: real
  smp_y :: real
  smp_dx :: real
  smp_dy :: real
  smp_influence :: real

text \<open>
  The fields of \<open>PhysicsEngine\<close> that the simulation step reads or writes.
  \<open>pressPoints\<close> is a JavaScript \<open>Map\<close>: an association list with distinct keys in
  insertion order.
\<close>

record engine =
  baseStiffness :: real
  baseDamping :: real
  mass :: real
  sensitivity :: real
  maxDisplacement :: real
  posThreshold :: real
  velThreshold :: real
  vertices :: "vertex list"
  regions :: "region list"
  forceHistory :: "entry list"
  historyLength :: nat
  pressPoints :: "(int \<times> press_point) list"
  pressSpeed :: real
  releaseSpeed :: real

section \<open>Influence field\<close>

definition clamp :: "real \<Rightarrow> real \<Rightarrow> real \<Rightarrow> real" where
  "clamp v lo hi = max lo (min hi v)"

definition calculateRegionInfluence :: "real \<Rightarrow> real \<Rightarrow> region \<Rightarrow> real" where
  "calculateRegionInfluence px py r =
     (let cx = reg_x r + width r / 2;
          cy = reg_y r + height r / 2;
          rx = (px - cx) / (width r / 2);
          ry = (py - cy) / (height r / 2);
          ellipseDist = sqrt (rx * rx + ry * ry);
          fadeStart = 0.6;
          fadeEnd = 1.5;
          influence =
            (if ellipseDist < fadeStart then exp (- ellipseDist * ellipseDist * 0.5)
             else (let t = (ellipseDist - fadeStart) / (fadeEnd - fadeStart);
                       smoothT = max 0 (1 - t * t * t);
                       centerValue = exp (- fadeStart * fadeStart * 0.5)
                   in centerValue * smoothT));
          verticalBias = 1.0 + (cy - py) * 0.5
      in influence * max 0.5 (min 1.5 verticalBias))"

text \<open>
  The quantities named by the specification of the influence field: the normalised
  ellipse distance \<open>d\<close>, the two-piece radial profile and the vertical bias.
\<close>

definition spec_ellipse_dist :: "real \<Rightarrow> real \<Rightarrow> region \<Rightarrow> real" where
  "spec_ellipse_dist px py r =
     sqrt (((px - (reg_x r + width r / 2)) / (width r / 2))\<^sup>2
         + ((py - (reg_y r + height r / 2)) / (height r / 2))\<^sup>2)"

definition spec_profile :: "real \<Rightarrow> real" where
  "spec_profile d =
     (if d < 0.6 then exp (- 0.5 * d\<^sup>2)
      else exp (- 0.5 * 0.6\<^sup>2) * max 0 (1 - ((d - 0.6) / 0.9) ^ 3))"

definition spec_bias :: "real \<Rightarrow> region \<Rightarrow> real" where
  "spec_bias py r = clamp (1 + ((reg_y r + height r / 2) - py) * 0.5) 0.5 1.5"

section \<open>Press points\<close>

text \<open>\<open>Map.prototype.set\<close>: an existing key keeps its place, a new key goes last.\<close>

fun mapSet :: "'k \<Rightarrow> 'v \<Rightarrow> ('k \<times> 'v) list \<Rightarrow> ('k \<times> 'v) list" where
  "mapSet k v [] = [(k, v)]"
| "mapSet k v ((k', v') # m) = (if k' = k then (k, v) # m else (k', v') # mapSet k v m)"

fun mapDelete :: "'k \<Rightarrow> ('k \<times> 'v) list \<Rightarrow> ('k \<times> 'v) list" where
  "mapDelete k [] = []"
| "mapDelete k ((k', v') # m) = (if k' = k then m else (k', v') # mapDelete k m)"

definition mapGet :: "'k \<Rightarrow> ('k \<times> 'v) list \<Rightarrow> 'v option" where
  "mapGet k m = map_of m k"

definition startPress :: "int \<Rightarrow> real \<Rightarrow> real \<Rightarrow> engine \<Rightarrow> engine" where
  "startPress ident x y e =
     e\<lparr>pressPoints :=
         mapSet ident \<lparr>pp_x = x, pp_y = y, depth = 0, targetDepth = 1.0\<rparr> (pressPoints e)\<rparr>"

definition updatePressPosition :: "int \<Rightarrow> real \<Rightarrow> real \<Rightarrow> engine \<Rightarrow> engine" where
  "updatePressPosition ident x y e =
     (case mapGet ident (pressPoints e) of
        None \<Rightarrow> e
      | Some point \<Rightarrow>
          e\<lparr>pressPoints := mapSet ident (point\<lparr>pp_x := x, pp_y := y\<rparr>) (pressPoints e)\<rparr>)"

text \<open>\<open>Math.atan2(y, x)\<close> on real arguments.\<close>

definition atan2 :: "real \<Rightarrow> real \<Rightarrow> real" where
  "atan2 y x =
     (if 0 < x then arctan (y / x)
      else if x < 0 then (if 0 \<le> y then arctan (y / x) + pi else arctan (y / x) - pi)
      else if 0 < y then pi / 2
      else if y < 0 then - (pi / 2)
      else 0)"

text \<open>
  The loop of \<open>endPress\<close> over the regions. \<open>rnd\<close> is the stream of values that
  \<open>Math.random()\<close> returns, \<open>n\<close> the number of values already drawn.
\<close>

fun endPressRegions :: "press_point \<Rightarrow> (nat \<Rightarrow> real) \<Rightarrow> nat \<Rightarrow> region list \<Rightarrow> region list" where
  "endPressRegions point rnd n [] = []"
| "endPressRegions point rnd n (region # rest) =
     (let releaseMagnitude = depth point * 8;
          cx = reg_x region + width region / 2;
          cy = reg_y region + height region / 2;
          dx = pp_x point - cx;
          dy = pp_y point - cy;
          dist = sqrt (dx * dx + dy * dy);
          influence = max 0 (1 - dist * 2)
      in if influence > 0 then
           (let angle = atan2 (cy - pp_y point) (cx - pp_x point);
                randomOffset = (rnd n - 0.5) * 0.3;
                vx1 = vec_x (velocity region)
                        + cos (angle + randomOffset) * releaseMagnitude * influence * 0.5;
                vy1 = vec_y (velocity region)
                        + sin (angle + randomOffset) * releaseMagnitude * influence * 0.5;
                vy2 = vy1 - releaseMagnitude * influence * 0.8
            in region\<lparr>velocity := \<lparr>vec_x = vx1, vec_y = vy2\<rparr>\<rparr>
                 # endPressRegions point rnd (Suc n) rest)
         else region # endPressRegions point rnd n rest)"

definition endPress :: "int \<Rightarrow> (nat \<Rightarrow> real) \<Rightarrow> engine \<Rightarrow> engine" where
  "endPress ident rnd e =
     (case mapGet ident (pressPoints e) of
        None \<Rightarrow> e
      | Some point \<Rightarrow>
          e\<lparr>regions := endPressRegions point rnd 0 (regions e),
            pressPoints := mapSet ident (point\<lparr>targetDepth := 0\<rparr>) (pressPoints e)\<rparr>)"

text \<open>The body of the first loop of \<open>updatePressState\<close>, for one point.\<close>

definition easePoint :: "engine \<Rightarrow> press_point \<Rightarrow> press_point" where
  "easePoint e point =
     (if targetDepth point > 0
      then point\<lparr>depth := depth point + (targetDepth point - depth point) * pressSpeed e\<rparr>
      else point\<lparr>depth := depth point + (targetDepth point - depth point) * releaseSpeed e\<rparr>)"

definition updatePressState :: "engine \<Rightarrow> engine" where
  "updatePressState e =
     (let points = map (\<lambda>(ident, point). (ident, easePoint e point)) (pressPoints e);
          toDelete = map fst (filter (\<lambda>(ident, point).
                        \<not> targetDepth point > 0 \<and> \<bar>depth point\<bar> < 0.001) points)
      in e\<lparr>pressPoints := fold mapDelete toDelete points\<rparr>)"

section \<open>Displacement aggregation\<close>

fun regionStep :: "vertex \<Rightarrow> real \<times> real \<times> real \<Rightarrow> region \<Rightarrow> real \<times> real \<times> real" where
  "regionStep v (totalDx, totalDy, totalWeight) region =
     (let influence = calculateRegionInfluence (baseX v) (baseY v) region
      in if influence > 0.001
         then (totalDx + vec_x (position region) * influence,
               totalDy + vec_y (position region) * influence,
               totalWeight + influence)
         else (totalDx, totalDy, totalWeight))"

fun pressStep :: "vertex \<Rightarrow> region list \<Rightarrow> real \<times> real \<Rightarrow> press_point \<Rightarrow> real \<times> real" where
  "pressStep v rs (totalDx, totalDy) point =
     (if depth point > 0.001 then
        (let regionInfluence =
               foldl (\<lambda>m region. max m (calculateRegionInfluence (baseX v) (baseY v) region)) 0 rs
         in if regionInfluence < 0.01 then (totalDx, totalDy)
            else
              (let dx = baseX v - pp_x point;
                   dy = baseY v - pp_y point;
                   dist = sqrt (dx * dx + dy * dy);
                   radius = 0.15;
                   pressInfluence = exp (- (dist * dist) / (2 * radius * radius))
               in if pressInfluence > 0.01 then
                    (let pressDisplacement = depth point * 15;
                         combinedInfluence = pressInfluence * regionInfluence;
                         outDx = (if dist > 0.001
                                  then totalDx + dx / dist * pressDisplacement * combinedInfluence * 0.5
                                  else totalDx);
                         outDy = (if dist > 0.001
                                  then totalDy + dy / dist * pressDisplacement * combinedInfluence * 0.3
                                  else totalDy);
                         centerInfluence =
                           exp (- (dist * dist) / (2 * (radius * 0.5) * (radius * 0.5)))
                     in (outDx, outDy + pressDisplacement * centerInfluence * regionInfluence * 0.3))
                  else (totalDx, totalDy)))
      else (totalDx, totalDy))"

definition vertexDisplacement :: "engine \<Rightarrow> vertex \<Rightarrow> sample" where
  "vertexDisplacement e v =
     (let threshold = 0.3;
          (regDx, regDy, totalWeight) = foldl (regionStep v) (0, 0, 0) (regions e);
          (totalDx, totalDy) =
             foldl (pressStep v (regions e)) (regDx, regDy) (map snd (pressPoints e))
      in \<lparr>smp_x = baseX v, smp_y = baseY v,
          smp_dx = (if \<bar>totalDx\<bar> < threshold then 0 else totalDx),
          smp_dy = (if \<bar>totalDy\<bar> < threshold then 0 else totalDy),
          smp_influence = totalWeight\<rparr>)"

definition calculateVertexDisplacements :: "engine \<Rightarrow> sample list" where
  "calculateVertexDisplacements e = map (vertexDisplacement e) (vertices e)"

section \<open>Simulation step\<close>

text \<open>
  \<open>forceHistory[delayIndex] || { x: 0, y: 0, patternId: null }\<close>: the entries are
  objects, so the default is taken exactly when the index is out of range.
\<close>

definition delayedForce :: "entry list \<Rightarrow> region \<Rightarrow> entry" where
  "delayedForce fh region =
     (let delayIndex = min (int (delayFrames region)) (int (length fh) - 1)
      in if 0 \<le> delayIndex \<and> delayIndex < int (length fh) then fh ! nat delayIndex
         else \<lparr>ent_x = 0, ent_y = 0, patternId = None\<rparr>)"

text \<open>The body of the loop of \<open>update\<close>, for the region at index \<open>i\<close>.\<close>

definition updateRegion :: "engine \<Rightarrow> entry list \<Rightarrow> nat \<Rightarrow> region \<Rightarrow> region" where
  "updateRegion e fh i region =
     (let delayed = delayedForce fh region;
          appliedForceX =
            (if (patternId delayed = Some ''kneadLeft'' \<or> patternId delayed = Some ''kneadRight'')
                \<and> i mod 2 = 1
             then - ent_x delayed else ent_x delayed);
          appliedForceY = ent_y delayed;
          springForceX = - stiffness region * vec_x (position region);
          springForceY = - stiffness region * vec_y (position region);
          dampingForceX = - damping region * vec_x (velocity region);
          dampingForceY = - damping region * vec_y (velocity region);
          ax = (springForceX + dampingForceX + appliedForceX) / mass e;
          ay = (springForceY + dampingForceY + appliedForceY) / mass e;
          velX = vec_x (velocity region) + ax;
          velY = vec_y (velocity region) + ay;
          posX = clamp (vec_x (position region) + velX) (- maxDisplacement e) (maxDisplacement e);
          posY = clamp (vec_y (position region) + velY) (- maxDisplacement e) (maxDisplacement e);
          snapX = (\<bar>posX\<bar> < posThreshold e \<and> \<bar>velX\<bar> < velThreshold e);
          snapY = (\<bar>posY\<bar> < posThreshold e \<and> \<bar>velY\<bar> < velThreshold e)
      in region\<lparr>position := \<lparr>vec_x = (if snapX then 0 else posX),
                                vec_y = (if snapY then 0 else posY)\<rparr>,
                 velocity := \<lparr>vec_x = (if snapX then 0 else velX),
                                vec_y = (if snapY then 0 else velY)\<rparr>\<rparr>)"

fun updateRegions :: "engine \<Rightarrow> entry list \<Rightarrow> nat \<Rightarrow> region list \<Rightarrow> region list" where
  "updateRegions e fh i [] = []"
| "updateRegions e fh i (region # rest) =
     updateRegion e fh i region # updateRegions e fh (Suc i) rest"

definition orZero :: "real option \<Rightarrow> real" where
  "orZero c = (case c of None \<Rightarrow> 0 | Some v \<Rightarrow> v)"

text \<open>\<open>unshift\<close> of the new entry, then one \<open>pop\<close> when the list is too long.\<close>

definition pushHistory :: "engine \<Rightarrow> entry \<Rightarrow> entry list" where
  "pushHistory e ent =
     (let h = ent # forceHistory e
      in if length h > historyLength e then butlast h else h)"

definition update :: "force \<Rightarrow> string option \<Rightarrow> engine \<Rightarrow> sample list \<times> engine" where
  "update f pid e0 =
     (let e1 = updatePressState e0;
          forceX = orZero (force_x f) * sensitivity e1;
          forceY = orZero (force_y f) * sensitivity e1;
          fh = pushHistory e1 \<lparr>ent_x = forceX, ent_y = forceY, patternId = pid\<rparr>;
          e2 = e1\<lparr>regions := updateRegions e1 fh 0 (regions e1), forceHistory := fh\<rparr>
      in (calculateVertexDisplacements e2, e2))"

text \<open>The body of the loop of \<open>applyForceAtPosition\<close>, for one region.\<close>

definition applyForceRegion :: "engine \<Rightarrow> real \<Rightarrow> real \<Rightarrow> real \<Rightarrow> real \<Rightarrow> region \<Rightarrow> region" where
  "applyForceRegion e forceX forceY pX pY region =
     (let influence = calculateRegionInfluence pX pY region
      in if influence > 0.01 then
           (let springForceX = - stiffness region * vec_x (position region);
                springForceY = - stiffness region * vec_y (position region);
                dampingForceX = - damping region * vec_x (velocity region);
                dampingForceY = - damping region * vec_y (velocity region);
                ax = (springForceX + dampingForceX + forceX * influence) / mass e;
                ay = (springForceY + dampingForceY + forceY * influence) / mass e;
                velX = vec_x (velocity region) + ax;
                velY = vec_y (velocity region) + ay;
                posX = clamp (vec_x (position region) + velX)
                         (- maxDisplacement e) (maxDisplacement e);
                posY = clamp (vec_y (position region) + velY)
                         (- maxDisplacement e) (maxDisplacement e);
                snapX = (\<bar>posX\<bar> < posThreshold e \<and> \<bar>velX\<bar> < velThreshold e);
                snapY = (\<bar>posY\<bar> < posThreshold e \<and> \<bar>velY\<bar> < velThreshold e)
            in region\<lparr>position := \<lparr>vec_x = (if snapX then 0 else posX),
                                      vec_y = (if snapY then 0 else posY)\<rparr>,
                       velocity := \<lparr>vec_x = (if snapX then 0 else velX),
                                      vec_y = (if snapY then 0 else velY)\<rparr>\<rparr>)
         else region)"

definition applyForceAtPosition :: "force \<Rightarrow> real \<Rightarrow> real \<Rightarrow> engine \<Rightarrow> sample list \<times> engine" where
  "applyForceAtPosition f pX pY e0 =
     (let e1 = updatePressState e0;
          forceX = orZero (force_x f) * sensitivity e1;
          forceY = orZero (force_y f) * sensitivity e1;
          e2 = e1\<lparr>regions := map (applyForceRegion e1 forceX forceY pX pY) (regions e1)\<rparr>
      in (calculateVertexDisplacements e2, e2))"

section \<open>Regions and reset\<close>

text \<open>
  The ellipse box handed to \<open>addRegion\<close>, and \<open>addRegion\<close> itself. \<open>u1\<close>, \<open>u2\<close>
  and \<open>u3\<close> are the three values that \<open>Math.random()\<close> returns, in call order.
\<close>

record box =
  box_x :: real
  box_y :: real
  box_width :: real
  box_height :: real

definition addRegion :: "box \<Rightarrow> real \<Rightarrow> real \<Rightarrow> real \<Rightarrow> engine \<Rightarrow> engine" where
  "addRegion b u1 u2 u3 e =
     (let index = length (regions e);
          stiffnessVariation = 0.7 + u1 * 0.6;
          dampingVariation = 0.95 + u2 * 0.1;
          delay = index * 3 + nat \<lfloor>u3 * 2\<rfloor>
      in e\<lparr>regions := regions e @
            [\<lparr>reg_x = box_x b, reg_y = box_y b, width = box_width b, height = box_height b,
              position = \<lparr>vec_x = 0, vec_y = 0\<rparr>,
              velocity = \<lparr>vec_x = 0, vec_y = 0\<rparr>,
              stiffness = baseStiffness e * stiffnessVariation,
              damping = baseDamping e * dampingVariation,
              delayFrames = delay,
              phaseOffset = real index * pi * 0.3\<rparr>]\<rparr>)"

definition reset :: "engine \<Rightarrow> engine" where
  "reset e =
     e\<lparr>regions := map (\<lambda>region. region\<lparr>position := \<lparr>vec_x = 0, vec_y = 0\<rparr>,
                                          velocity := \<lparr>vec_x = 0, vec_y = 0\<rparr>\<rparr>) (regions e),
       vertices := map (\<lambda>v. v\<lparr>vtx_dx := 0, vtx_dy := 0\<rparr>) (vertices e),
       forceHistory := []\<rparr>"

text \<open>
  The state built by the constructor, for a given vertex grid: no regions, an empty
  force history and no press points.
\<close>

definition newEngine :: "vertex list \<Rightarrow> engine" where
  "newEngine vs =
     \<lparr>baseStiffness = 0.08, baseDamping = 0.92, mass = 1.0, sensitivity = 4.0,
      maxDisplacement = 25, posThreshold = 0.3, velThreshold = 0.05,
      vertices = vs, regions = [], forceHistory = [], historyLength = 8,
      pressPoints = [], pressSpeed = 0.15, releaseSpeed = 0.08\<rparr>"

text \<open>A sequence of \<open>update\<close> calls, each with its force and pattern id.\<close>

fun runUpdates :: "(force \<times> string option) list \<Rightarrow> engine \<Rightarrow> engine" where
  "runUpdates [] e = e"
| "runUpdates ((f, pid) # rest) e = runUpdates rest (snd (update f pid e))"

section \<open>The integration sequence as the specification words it\<close>

text \<open>
  One axis of the per-region step: spring force \<open>- stiffness * position\<close>, damping force
  \<open>- damping * velocity\<close>, their sum with the applied force divided by the mass, then
  \<open>velocity += acceleration\<close>, \<open>position += velocity\<close>, the clamp of the position to
  \<open>\<plusminus> maxDisplacement\<close> and the anti-jitter snap. The result is the new position and
  velocity on that axis.
\<close>

definition spec_axis :: "engine \<Rightarrow> region \<Rightarrow> real \<Rightarrow> real \<Rightarrow> real \<Rightarrow> real \<times> real" where
  "spec_axis e region applied p v =
     (let acceleration = (- stiffness region * p + - damping region * v + applied) / mass e;
          v' = v + acceleration;
          p' = clamp (p + v') (- maxDisplacement e) (maxDisplacement e)
      in if \<bar>p'\<bar> < posThreshold e \<and> \<bar>v'\<bar> < velThreshold e then (0, 0) else (p', v'))"

definition spec_integrate :: "engine \<Rightarrow> real \<Rightarrow> real \<Rightarrow> region \<Rightarrow> region" where
  "spec_integrate e appliedX appliedY region =
     (let (px, vx) = spec_axis e region appliedX (vec_x (position region)) (vec_x (velocity region));
          (py, vy) = spec_axis e region appliedY (vec_y (position region)) (vec_y (velocity region))
      in region\<lparr>position := \<lparr>vec_x = px, vec_y = py\<rparr>, velocity := \<lparr>vec_x = vx, vec_y = vy\<rparr>\<rparr>)"

text \<open>The force that the specification gives the region at index \<open>i\<close> from an entry.\<close>

definition spec_applied_x :: "entry \<Rightarrow> nat \<Rightarrow> real" where
  "spec_applied_x ent i =
     (if patternId ent \<in> {Some ''kneadLeft'', Some ''kneadRight''} \<and> odd i
      then - ent_x ent else ent_x ent)"

section \<open>Concrete inputs\<close>

text \<open>
  The region of the end-to-end scenario of the specification on a fresh engine with one
  vertex at the centre of the image, and the inputs at which the theorems below are
  evaluated. The random values drawn by \<open>addRegion\<close> are all \<open>0\<close>.
\<close>

definition ex_box :: box where
  "ex_box = \<lparr>box_x = 0.3, box_y = 0.3, box_width = 0.4, box_height = 0.4\<rparr>"

definition ex_vertex :: vertex where
  "ex_vertex = \<lparr>baseX = 0.5, baseY = 0.5, vtx_dx = 0, vtx_dy = 0\<rparr>"

definition ex_engine :: engine where
  "ex_engine = addRegion ex_box 0 0 0 (newEngine [ex_vertex])"

definition ex_push :: force where
  "ex_push = \<lparr>force_x = Some 100, force_y = Some 0\<rparr>"

definition ex_unit_region :: region where
  "ex_unit_region =
     \<lparr>reg_x = 0, reg_y = 0, width = 1, height = 1,
      position = \<lparr>vec_x = 0, vec_y = 0\<rparr>, velocity = \<lparr>vec_x = 0, vec_y = 0\<rparr>,
      stiffness = 0.08, damping = 0.92, delayFrames = 0, phaseOffset = 0\<rparr>"

definition ex_far_engine :: engine where
  "ex_far_engine =
     (newEngine [ex_vertex])\<lparr>regions :=
        [\<lparr>reg_x = 0, reg_y = 0, width = 0.2, height = 0.2,
          position = \<lparr>vec_x = 10, vec_y = 0\<rparr>, velocity = \<lparr>vec_x = 0, vec_y = 0\<rparr>,
          stiffness = 0.08, damping = 0.92, delayFrames = 0, phaseOffset = 0\<rparr>]\<rparr>"




definition ex_pressed :: engine where
  "ex_pressed = updatePressState (startPress 0 0.5 0.5 ex_engine)"

definition ex_releasing :: engine where
  "ex_releasing = endPress 0 (\<lambda>n. 0.5) ex_pressed"

text \<open>The force \<open>{ x: 0, y: 0 }\<close> and the vector \<open>{ x: 0, y: 0 }\<close>.\<close>

definition zeroForce :: force where
  "zeroForce = \<lparr>force_x = Some 0, force_y = Some 0\<rparr>"

definition zeroVec :: vec where
  "zeroVec = \<lparr>vec_x = 0, vec_y = 0\<rparr>"

text \<open>A region at rest, and a state in which the zero-force step changes no region.\<close>

definition atRest :: "region \<Rightarrow> bool" where
  "atRest r \<longleftrightarrow> position r = zeroVec \<and> velocity r = zeroVec"

definition quiet :: "engine \<Rightarrow> bool" where
  "quiet e \<longleftrightarrow> 0 \<le> maxDisplacement e \<and> pressPoints e = []
      \<and> list_all atRest (regions e)
      \<and> list_all (\<lambda>ent. ent_x ent = 0 \<and> ent_y ent = 0) (forceHistory e)"

text \<open>The one-region engine after one step with force \<open>(100, 0)\<close>.\<close>

definition ex_moved :: engine where
  "ex_moved = snd (update ex_push None ex_engine)"

section \<open>The influence and aggregation code on IEEE special values\<close>

text \<open>
  JavaScript numbers with the special values of IEEE arithmetic: a finite value, the two
  infinities and NaN. Rounding, overflow and the sign of zero are left out: a finite
  non-zero value divided by zero is the infinity with the sign of the dividend, and
  \<open>0 / 0\<close> is NaN. Comparisons with NaN are false; \<open>Math.max\<close> and \<open>Math.min\<close>
  return NaN when an argument is NaN.
\<close>

datatype jsnum = Fin real | PInf | NInf | NaN

fun js_neg :: "jsnum \<Rightarrow> jsnum" where
  "js_neg (Fin a) = Fin (- a)"
| "js_neg PInf = NInf"
| "js_neg NInf = PInf"
| "js_neg NaN = NaN"

fun js_add :: "jsnum \<Rightarrow> jsnum \<Rightarrow> jsnum" where
  "js_add (Fin a) (Fin b) = Fin (a + b)"
| "js_add NaN b = NaN"
| "js_add a NaN = NaN"
| "js_add PInf NInf = NaN"
| "js_add NInf PInf = NaN"
| "js_add PInf b = PInf"
| "js_add a PInf = PInf"
| "js_add NInf b = NInf"
| "js_add a NInf = NInf"

definition js_sub :: "jsnum \<Rightarrow> jsnum \<Rightarrow> jsnum" where
  "js_sub a b = js_add a (js_neg b)"

fun js_mul :: "jsnum \<Rightarrow> jsnum \<Rightarrow> jsnum" where
  "js_mul (Fin a) (Fin b) = Fin (a * b)"
| "js_mul NaN b = NaN"
| "js_mul a NaN = NaN"
| "js_mul (Fin a) PInf = (if a = 0 then NaN else if 0 < a then PInf else NInf)"
| "js_mul (Fin a) NInf = (if a = 0 then NaN else if 0 < a then NInf else PInf)"
| "js_mul PInf (Fin b) = (if b = 0 then NaN else if 0 < b then PInf else NInf)"
| "js_mul NInf (Fin b) = (if b = 0 then NaN else if 0 < b then NInf else PInf)"
| "js_mul PInf PInf = PInf"
| "js_mul NInf NInf = PInf"
| "js_mul PInf NInf = NInf"
| "js_mul NInf PInf = NInf"

fun js_div :: "jsnum \<Rightarrow> jsnum \<Rightarrow> jsnum" where
  "js_div (Fin a) (Fin b) =
     (if b = 0 then (if a = 0 then NaN else if 0 < a then PInf else NInf) else Fin (a / b))"
| "js_div NaN b = NaN"
| "js_div a NaN = NaN"
| "js_div (Fin a) PInf = Fin 0"
| "js_div (Fin a) NInf = Fin 0"
| "js_div PInf (Fin b) = (if 0 \<le> b then PInf else NInf)"
| "js_div NInf (Fin b) = (if 0 \<le> b then NInf else PInf)"
| "js_div a b = NaN"

fun js_sqrt :: "jsnum \<Rightarrow> jsnum" where
  "js_sqrt (Fin a) = (if a < 0 then NaN else Fin (sqrt a))"
| "js_sqrt PInf = PInf"
| "js_sqrt NInf = NaN"
| "js_sqrt NaN = NaN"

fun js_exp :: "jsnum \<Rightarrow> jsnum" where
  "js_exp (Fin a) = Fin (exp a)"
| "js_exp PInf = PInf"
| "js_exp NInf = Fin 0"
| "js_exp NaN = NaN"

fun js_abs :: "jsnum \<Rightarrow> jsnum" where
  "js_abs (Fin a) = Fin \<bar>a\<bar>"
| "js_abs PInf = PInf"
| "js_abs NInf = PInf"
| "js_abs NaN = NaN"

fun js_lt :: "jsnum \<Rightarrow> jsnum \<Rightarrow> bool" where
  "js_lt (Fin a) (Fin b) = (a < b)"
| "js_lt NaN b = False"
| "js_lt a NaN = False"
| "js_lt NInf NInf = False"
| "js_lt NInf b = True"
| "js_lt a NInf = False"
| "js_lt PInf b = False"
| "js_lt a PInf = True"

definition js_gt :: "jsnum \<Rightarrow> jsnum \<Rightarrow> bool" where
  "js_gt a b = js_lt b a"

fun js_max :: "jsnum \<Rightarrow> jsnum \<Rightarrow> jsnum" where
  "js_max NaN b = NaN"
| "js_max a NaN = NaN"
| "js_max a b = (if js_lt a b then b else a)"

fun js_min :: "jsnum \<Rightarrow> jsnum \<Rightarrow> jsnum" where
  "js_min NaN b = NaN"
| "js_min a NaN = NaN"
| "js_min a b = (if js_lt b a then b else a)"

fun js_finite :: "jsnum \<Rightarrow> bool" where
  "js_finite (Fin a) = True"
| "js_finite a = False"

text \<open>
  The fields that the influence and aggregation code reads, with the special values.
\<close>

record region_ieee =
  ie_x :: jsnum
  ie_y :: jsnum
  ie_width :: jsnum
  ie_height :: jsnum
  ie_position_x :: jsnum
  ie_position_y :: jsnum

record point_ieee =
  ie_pp_x :: jsnum
  ie_pp_y :: jsnum
  ie_depth :: jsnum

record vertex_ieee =
  ie_baseX :: jsnum
  ie_baseY :: jsnum

record sample_ieee =
  ie_smp_x :: jsnum
  ie_smp_y :: jsnum
  ie_dx :: jsnum
  ie_dy :: jsnum
  ie_influence :: jsnum

definition calculateRegionInfluence_ieee :: "jsnum \<Rightarrow> jsnum \<Rightarrow> region_ieee \<Rightarrow> jsnum" where
  "calculateRegionInfluence_ieee px py r =
     (let cx = js_add (ie_x r) (js_div (ie_width r) (Fin 2));
          cy = js_add (ie_y r) (js_div (ie_height r) (Fin 2));
          rx = js_div (js_sub px cx) (js_div (ie_width r) (Fin 2));
          ry = js_div (js_sub py cy) (js_div (ie_height r) (Fin 2));
          ellipseDist = js_sqrt (js_add (js_mul rx rx) (js_mul ry ry));
          fadeStart = Fin 0.6;
          fadeEnd = Fin 1.5;
          influence =
            (if js_lt ellipseDist fadeStart
             then js_exp (js_mul (js_mul (js_neg ellipseDist) ellipseDist) (Fin 0.5))
             else (let t = js_div (js_sub ellipseDist fadeStart) (js_sub fadeEnd fadeStart);
                       smoothT = js_max (Fin 0) (js_sub (Fin 1) (js_mul (js_mul t t) t));
                       centerValue = js_exp (js_mul (js_mul (js_neg fadeStart) fadeStart) (Fin 0.5))
                   in js_mul centerValue smoothT));
          verticalBias = js_add (Fin 1.0) (js_mul (js_sub cy py) (Fin 0.5))
      in js_mul influence (js_max (Fin 0.5) (js_min (Fin 1.5) verticalBias)))"

fun regionStep_ieee ::
  "vertex_ieee \<Rightarrow> jsnum \<times> jsnum \<times> jsnum \<Rightarrow> region_ieee \<Rightarrow> jsnum \<times> jsnum \<times> jsnum" where
  "regionStep_ieee v (totalDx, totalDy, totalWeight) region =
     (let influence = calculateRegionInfluence_ieee (ie_baseX v) (ie_baseY v) region
      in if js_gt influence (Fin 0.001)
         then (js_add totalDx (js_mul (ie_position_x region) influence),
               js_add totalDy (js_mul (ie_position_y region) influence),
               js_add totalWeight influence)
         else (totalDx, totalDy, totalWeight))"

fun pressStep_ieee ::
  "vertex_ieee \<Rightarrow> region_ieee list \<Rightarrow> jsnum \<times> jsnum \<Rightarrow> point_ieee \<Rightarrow> jsnum \<times> jsnum" where
  "pressStep_ieee v rs (totalDx, totalDy) point =
     (if js_gt (ie_depth point) (Fin 0.001) then
        (let regionInfluence =
               foldl (\<lambda>m region.
                        js_max m (calculateRegionInfluence_ieee (ie_baseX v) (ie_baseY v) region))
                 (Fin 0) rs
         in if js_lt regionInfluence (Fin 0.01) then (totalDx, totalDy)
            else
              (let dx = js_sub (ie_baseX v) (ie_pp_x point);
                   dy = js_sub (ie_baseY v) (ie_pp_y point);
                   dist = js_sqrt (js_add (js_mul dx dx) (js_mul dy dy));
                   radius = Fin 0.15;
                   pressInfluence =
                     js_exp (js_div (js_neg (js_mul dist dist))
                               (js_mul (js_mul (Fin 2) radius) radius))
               in if js_gt pressInfluence (Fin 0.01) then
                    (let pressDisplacement = js_mul (ie_depth point) (Fin 15);
                         combinedInfluence = js_mul pressInfluence regionInfluence;
                         outDx = (if js_gt dist (Fin 0.001)
                                  then js_add totalDx
                                         (js_mul (js_mul (js_mul (js_div dx dist) pressDisplacement)
                                                     combinedInfluence) (Fin 0.5))
                                  else totalDx);
                         outDy = (if js_gt dist (Fin 0.001)
                                  then js_add totalDy
                                         (js_mul (js_mul (js_mul (js_div dy dist) pressDisplacement)
                                                     combinedInfluence) (Fin 0.3))
                                  else totalDy);
                         centerInfluence =
                           js_exp (js_div (js_neg (js_mul dist dist))
                                     (js_mul (js_mul (Fin 2) (js_mul radius (Fin 0.5)))
                                        (js_mul radius (Fin 0.5))))
                     in (outDx,
                         js_add outDy
                           (js_mul (js_mul (js_mul pressDisplacement centerInfluence)
                                       regionInfluence) (Fin 0.3)))
                    )
                  else (totalDx, totalDy)))
      else (totalDx, totalDy))"

definition vertexDisplacement_ieee ::
  "region_ieee list \<Rightarrow> point_ieee list \<Rightarrow> vertex_ieee \<Rightarrow> sample_ieee" where
  "vertexDisplacement_ieee rs points v =
     (let threshold = Fin 0.3;
          (regDx, regDy, totalWeight) = foldl (regionStep_ieee v) (Fin 0, Fin 0, Fin 0) rs;
          (totalDx, totalDy) = foldl (pressStep_ieee v rs) (regDx, regDy) points
      in \<lparr>ie_smp_x = ie_baseX v, ie_smp_y = ie_baseY v,
          ie_dx = (if js_lt (js_abs totalDx) threshold then Fin 0 else totalDx),
          ie_dy = (if js_lt (js_abs totalDy) threshold then Fin 0 else totalDy),
          ie_influence = totalWeight\<rparr>)"

text \<open>
  The part of \<open>Renderer.drawTexturedTriangle\<close> (storage.js) that computes the affine
  transform of a triangle from its source and destination corners: \<open>None\<close> when the
  source triangle is degenerate and the function returns without drawing, the six
  arguments of \<open>ctx.transform\<close> otherwise.
\<close>

definition drawTexturedTriangle ::
  "real \<Rightarrow> real \<Rightarrow> real \<Rightarrow> real \<Rightarrow> real \<Rightarrow> real \<Rightarrow> real \<Rightarrow> real \<Rightarrow> real \<Rightarrow> real \<Rightarrow> real \<Rightarrow> real
     \<Rightarrow> (real \<times> real \<times> real \<times> real \<times> real \<times> real) option" where
  "drawTexturedTriangle sx0 sy0 sx1 sy1 sx2 sy2 dx0 dy0 dx1 dy1 dx2 dy2 =
     (let denom = (sx0 - sx2) * (sy1 - sy2) - (sx1 - sx2) * (sy0 - sy2)
      in if \<bar>denom\<bar> < 0.001 then None
         else
           (let m11 = ((dx0 - dx2) * (sy1 - sy2) - (dx1 - dx2) * (sy0 - sy2)) / denom;
                m12 = ((dx1 - dx2) * (sx0 - sx2) - (dx0 - dx2) * (sx1 - sx2)) / denom;
                m21 = ((dy0 - dy2) * (sy1 - sy2) - (dy1 - dy2) * (sy0 - sy2)) / denom;
                m22 = ((dy1 - dy2) * (sx0 - sx2) - (dy0 - dy2) * (sx1 - sx2)) / denom;
                m13 = dx2 - m11 * sx2 - m12 * sy2;
                m23 = dy2 - m21 * sx2 - m22 * sy2
            in Some (m11, m21, m12, m22, m13, m23)))"

text \<open>
  A region of width \<open>0\<close> on the right edge of the image, the grid vertex
  \<open>(1, 0.5)\<close> on that edge and a press point at the same place with depth \<open>0.15\<close>
  (the depth after one step of pressing).
\<close>

definition ex_flat_region :: region_ieee where
  "ex_flat_region =
     \<lparr>ie_x = Fin 1, ie_y = Fin 0.25, ie_width = Fin 0, ie_height = Fin 0.5,
      ie_position_x = Fin 0, ie_position_y = Fin 0\<rparr>"

definition ex_edge_vertex :: vertex_ieee where
  "ex_edge_vertex = \<lparr>ie_baseX = Fin 1, ie_baseY = Fin 0.5\<rparr>"

definition ex_edge_press :: point_ieee where
  "ex_edge_press = \<lparr>ie_pp_x = Fin 1, ie_pp_y = Fin 0.5, ie_depth = Fin 0.15\<rparr>"

text \<open>The embedding of the real-valued state, and the regions with non-zero extent.\<close>

definition lift_region :: "region \<Rightarrow> region_ieee" where
  "lift_region r =
     \<lparr>ie_x = Fin (reg_x r), ie_y = Fin (reg_y r), ie_width = Fin (width r),
      ie_height = Fin (height r), ie_position_x = Fin (vec_x (position r)),
      ie_position_y = Fin (vec_y (position r))\<rparr>"

definition lift_point :: "press_point \<Rightarrow> point_ieee" where
  "lift_point p = \<lparr>ie_pp_x = Fin (pp_x p), ie_pp_y = Fin (pp_y p), ie_depth = Fin (depth p)\<rparr>"

definition lift_vertex :: "vertex \<Rightarrow> vertex_ieee" where
  "lift_vertex v = \<lparr>ie_baseX = Fin (baseX v), ie_baseY = Fin (baseY v)\<rparr>"

definition lift_sample :: "sample \<Rightarrow> sample_ieee" where
  "lift_sample s =
     \<lparr>ie_smp_x = Fin (smp_x s), ie_smp_y = Fin (smp_y s), ie_dx = Fin (smp_dx s),
      ie_dy = Fin (smp_dy s), ie_influence = Fin (smp_influence s)\<rparr>"

definition proper :: "region \<Rightarrow> bool" where
  "proper r \<longleftrightarrow> width r \<noteq> 0 \<and> height r \<noteq> 0"

section \<open>The simulation step on IEEE special values\<close>

text \<open>
  \<open>Number.MAX_VALUE\<close>, and the overflow of a finite result: a result beyond
  \<open>Number.MAX_VALUE\<close> in magnitude is the infinity of its sign.
\<close>

definition maxNumber :: real where
  "maxNumber = 2 ^ 1024 - 2 ^ 971"

fun js_ov :: "jsnum \<Rightarrow> jsnum" where
  "js_ov (Fin a) = (if maxNumber < a then PInf else if a < - maxNumber then NInf else Fin a)"
| "js_ov PInf = PInf"
| "js_ov NInf = NInf"
| "js_ov NaN = NaN"

definition ov_add :: "jsnum \<Rightarrow> jsnum \<Rightarrow> jsnum" where
  "ov_add a b = js_ov (js_add a b)"

definition ov_mul :: "jsnum \<Rightarrow> jsnum \<Rightarrow> jsnum" where
  "ov_mul a b = js_ov (js_mul a b)"

definition ov_div :: "jsnum \<Rightarrow> jsnum \<Rightarrow> jsnum" where
  "ov_div a b = js_ov (js_div a b)"

text \<open>
  The state that the loop of \<open>update\<close> reads and writes, with the special values: the
  physics state and constants of a region, an entry of the force history, the force
  argument and the engine fields.
\<close>

record region_state =
  rs_position_x :: jsnum
  rs_position_y :: jsnum
  rs_velocity_x :: jsnum
  rs_velocity_y :: jsnum
  rs_stiffness :: jsnum
  rs_damping :: jsnum
  rs_delayFrames :: nat

record entry_ieee =
  he_x :: jsnum
  he_y :: jsnum
  he_patternId :: "string option"

record force_ieee =
  fi_x :: "jsnum option"
  fi_y :: "jsnum option"

record engine_ieee =
  eg_mass :: jsnum
  eg_sensitivity :: jsnum
  eg_maxDisplacement :: jsnum
  eg_posThreshold :: jsnum
  eg_velThreshold :: jsnum
  eg_historyLength :: nat
  eg_regions :: "region_state list"
  eg_forceHistory :: "entry_ieee list"

text \<open>\<open>force.x || 0\<close>: a missing component, NaN and \<open>0\<close> are read as \<open>0\<close>.\<close>

fun orZero_ieee :: "jsnum option \<Rightarrow> jsnum" where
  "orZero_ieee None = Fin 0"
| "orZero_ieee (Some NaN) = Fin 0"
| "orZero_ieee (Some v) = v"

definition clamp_ieee :: "jsnum \<Rightarrow> jsnum \<Rightarrow> jsnum \<Rightarrow> jsnum" where
  "clamp_ieee v lo hi = js_max lo (js_min hi v)"

definition delayedForce_ieee :: "entry_ieee list \<Rightarrow> region_state \<Rightarrow> entry_ieee" where
  "delayedForce_ieee fh region =
     (let delayIndex = min (int (rs_delayFrames region)) (int (length fh) - 1)
      in if 0 \<le> delayIndex \<and> delayIndex < int (length fh) then fh ! nat delayIndex
         else \<lparr>he_x = Fin 0, he_y = Fin 0, he_patternId = None\<rparr>)"

definition updateRegion_ieee ::
  "engine_ieee \<Rightarrow> entry_ieee list \<Rightarrow> nat \<Rightarrow> region_state \<Rightarrow> region_state" where
  "updateRegion_ieee e fh i region =
     (let delayed = delayedForce_ieee fh region;
          appliedForceX =
            (if (he_patternId delayed = Some ''kneadLeft''
                   \<or> he_patternId delayed = Some ''kneadRight'') \<and> i mod 2 = 1
             then js_neg (he_x delayed) else he_x delayed);
          appliedForceY = he_y delayed;
          springForceX = ov_mul (js_neg (rs_stiffness region)) (rs_position_x region);
          springForceY = ov_mul (js_neg (rs_stiffness region)) (rs_position_y region);
          dampingForceX = ov_mul (js_neg (rs_damping region)) (rs_velocity_x region);
          dampingForceY = ov_mul (js_neg (rs_damping region)) (rs_velocity_y region);
          ax = ov_div (ov_add (ov_add springForceX dampingForceX) appliedForceX) (eg_mass e);
          ay = ov_div (ov_add (ov_add springForceY dampingForceY) appliedForceY) (eg_mass e);
          velX = ov_add (rs_velocity_x region) ax;
          velY = ov_add (rs_velocity_y region) ay;
          posX = clamp_ieee (ov_add (rs_position_x region) velX)
                   (js_neg (eg_maxDisplacement e)) (eg_maxDisplacement e);
          posY = clamp_ieee (ov_add (rs_position_y region) velY)
                   (js_neg (eg_maxDisplacement e)) (eg_maxDisplacement e);
          snapX = (js_lt (js_abs posX) (eg_posThreshold e)
                     \<and> js_lt (js_abs velX) (eg_velThreshold e));
          snapY = (js_lt (js_abs posY) (eg_posThreshold e)
                     \<and> js_lt (js_abs velY) (eg_velThreshold e))
      in region\<lparr>rs_position_x := (if snapX then Fin 0 else posX),
                 rs_position_y := (if snapY then Fin 0 else posY),
                 rs_velocity_x := (if snapX then Fin 0 else velX),
                 rs_velocity_y := (if snapY then Fin 0 else velY)\<rparr>)"

fun updateRegions_ieee ::
  "engine_ieee \<Rightarrow> entry_ieee list \<Rightarrow> nat \<Rightarrow> region_state list \<Rightarrow> region_state list" where
  "updateRegions_ieee e fh i [] = []"
| "updateRegions_ieee e fh i (region # rest) =
     updateRegion_ieee e fh i region # updateRegions_ieee e fh (Suc i) rest"

definition pushHistory_ieee :: "engine_ieee \<Rightarrow> entry_ieee \<Rightarrow> entry_ieee list" where
  "pushHistory_ieee e ent =
     (let h = ent # eg_forceHistory e
      in if length h > eg_historyLength e then butlast h else h)"

text \<open>
  The effect of \<open>update\<close> on the regions and the force history. \<open>updatePressState\<close>
  and the displacement array that is returned read and write neither.
\<close>

definition update_ieee :: "force_ieee \<Rightarrow> string option \<Rightarrow> engine_ieee \<Rightarrow> engine_ieee" where
  "update_ieee f pid e =
     (let forceX = ov_mul (orZero_ieee (fi_x f)) (eg_sensitivity e);
          forceY = ov_mul (orZero_ieee (fi_y f)) (eg_sensitivity e);
          fh = pushHistory_ieee e \<lparr>he_x = forceX, he_y = forceY, he_patternId = pid\<rparr>
      in e\<lparr>eg_regions := updateRegions_ieee e fh 0 (eg_regions e), eg_forceHistory := fh\<rparr>)"

fun runUpdates_ieee :: "(force_ieee \<times> string option) list \<Rightarrow> engine_ieee \<Rightarrow> engine_ieee" where
  "runUpdates_ieee [] e = e"
| "runUpdates_ieee ((f, pid) # rest) e = runUpdates_ieee rest (update_ieee f pid e)"

text \<open>A value that is a number within \<open>[- m, m]\<close>, or NaN.\<close>

fun clamped_or_nan :: "real \<Rightarrow> jsnum \<Rightarrow> bool" where
  "clamped_or_nan m (Fin p) = (\<bar>p\<bar> \<le> m)"
| "clamped_or_nan m NaN = True"
| "clamped_or_nan m PInf = False"
| "clamped_or_nan m NInf = False"

text \<open>
  The one-region engine of the concrete inputs with its region at rest, the forces
  \<open>(100, 0)\<close> and \<open>(0, 0)\<close>, and a finite force whose product with the sensitivity
  \<open>4\<close> is beyond \<open>Number.MAX_VALUE\<close>.
\<close>

definition ex_rest_region :: region_state where
  "ex_rest_region =
     \<lparr>rs_position_x = Fin 0, rs_position_y = Fin 0, rs_velocity_x = Fin 0,
      rs_velocity_y = Fin 0, rs_stiffness = Fin 0.056, rs_damping = Fin 0.874,
      rs_delayFrames = 0\<rparr>"

definition ex_engine_ieee :: engine_ieee where
  "ex_engine_ieee =
     \<lparr>eg_mass = Fin 1.0, eg_sensitivity = Fin 4.0, eg_maxDisplacement = Fin 25,
      eg_posThreshold = Fin 0.3, eg_velThreshold = Fin 0.05, eg_historyLength = 8,
      eg_regions = [ex_rest_region], eg_forceHistory = []\<rparr>"

definition ex_push_ieee :: force_ieee where
  "ex_push_ieee = \<lparr>fi_x = Some (Fin 100), fi_y = Some (Fin 0)\<rparr>"

definition ex_none_ieee :: force_ieee where
  "ex_none_ieee = \<lparr>fi_x = Some (Fin 0), fi_y = Some (Fin 0)\<rparr>"

definition hugeForce :: real where
  "hugeForce = 10 ^ 308"

definition ex_huge_ieee :: force_ieee where
  "ex_huge_ieee = \<lparr>fi_x = Some (Fin hugeForce), fi_y = Some (Fin 0)\<rparr>"

section \<open>Properties of the influence field\<close>

lemma profile_code:
  "(if d < 0.6 then exp (- d * d * 0.5)
    else (let t = (d - 0.6) / (1.5 - 0.6);
              smoothT = max 0 (1 - t * t * t);
              centerValue = exp (- 0.6 * 0.6 * 0.5)
          in centerValue * smoothT)) = spec_profile d"
  by (simp add: spec_profile_def Let_def power2_eq_square power3_eq_cube)

lemma influence_as_profile:
  "calculateRegionInfluence px py r
     = spec_profile (spec_ellipse_dist px py r) * spec_bias py r"
proof -
  have d: "sqrt ((px - (reg_x r + width r / 2)) / (width r / 2) * ((px - (reg_x r + width r / 2)) / (width r / 2))
     + (py - (reg_y r + height r / 2)) / (height r / 2) * ((py - (reg_y r + height r / 2)) / (height r / 2)))
     = spec_ellipse_dist px py r"
    unfolding spec_ellipse_dist_def power2_eq_square by (rule refl)
  show ?thesis
    unfolding calculateRegionInfluence_def Let_def d profile_code[unfolded Let_def]
    by (simp add: spec_bias_def clamp_def)
qed

lemma profile_cont: "continuous_on UNIV spec_profile"
proof -
  have "continuous_on ({..0.6} \<union> {0.6..}) (\<lambda>d::real. if d < 0.6 then exp (- 0.5 * d\<^sup>2)
      else exp (- 0.5 * 0.6\<^sup>2) * max 0 (1 - ((d - 0.6) / 0.9) ^ 3))"
  proof (rule continuous_on_If)
    fix d :: real
    assume "d \<in> {..0.6}" "\<not> d < 0.6"
    then have d: "d = 6 / 10" by simp
    show "exp (- 0.5 * d\<^sup>2) = exp (- 0.5 * 0.6\<^sup>2) * max 0 (1 - ((d - 0.6) / 0.9) ^ 3)"
      unfolding d by simp
  qed (auto intro!: continuous_intros)
  moreover have "{..0.6::real} \<union> {0.6..} = UNIV" by auto
  ultimately show ?thesis unfolding spec_profile_def[abs_def] by simp
qed

lemma profile_zero: "3/2 \<le> d \<Longrightarrow> spec_profile d = 0"
proof -
  assume h: "3/2 \<le> d"
  then have "1 \<le> (d - 0.6) / 0.9" by simp
  then have "1 \<le> ((d - 0.6) / 0.9) ^ 3" by (rule one_le_power)
  then have "max 0 (1 - ((d - 0.6) / 0.9) ^ 3) = 0" by simp
  with h show ?thesis by (simp add: spec_profile_def)
qed

lemma profile_range: "0 \<le> spec_profile d \<and> spec_profile d \<le> 1"
proof (cases "d < 0.6")
  case True
  then show ?thesis by (simp add: spec_profile_def)
next
  case False
  then have t0: "0 \<le> (d - 0.6) / 0.9" by simp
  then have "0 \<le> ((d - 0.6) / 0.9) ^ 3" by simp
  then have m: "0 \<le> max 0 (1 - ((d - 0.6) / 0.9) ^ 3) \<and> max 0 (1 - ((d - 0.6) / 0.9) ^ 3) \<le> 1"
    by simp
  have e: "0 < exp (- 0.5 * 0.6\<^sup>2 :: real) \<and> exp (- 0.5 * 0.6\<^sup>2 :: real) \<le> 1" by simp
  from m e have "exp (- 0.5 * 0.6\<^sup>2 :: real) * max 0 (1 - ((d - 0.6) / 0.9) ^ 3) \<le> 1 * 1"
    by (intro mult_mono) auto
  with m e False show ?thesis by (simp add: spec_profile_def)
qed

lemma bias_range: "1/2 \<le> spec_bias py r \<and> spec_bias py r \<le> 3/2"
  by (auto simp: spec_bias_def clamp_def max_def min_def)

lemma influence_range: "0 \<le> calculateRegionInfluence px py r \<and> calculateRegionInfluence px py r \<le> 3/2"
proof -
  have p: "0 \<le> spec_profile (spec_ellipse_dist px py r) \<and> spec_profile (spec_ellipse_dist px py r) \<le> 1"
    by (rule profile_range)
  have b: "1/2 \<le> spec_bias py r \<and> spec_bias py r \<le> 3/2" by (rule bias_range)
  from p b have "spec_profile (spec_ellipse_dist px py r) * spec_bias py r \<le> 1 * (3/2)"
    by (intro mult_mono) auto
  moreover from p b have "0 \<le> spec_profile (spec_ellipse_dist px py r) * spec_bias py r" by simp
  ultimately show ?thesis by (simp add: influence_as_profile)
qed

section \<open>Properties of the simulation step\<close>

lemma updateRegion_spec:
  "updateRegion e fh i region
     = spec_integrate e (spec_applied_x (delayedForce fh region) i)
         (ent_y (delayedForce fh region)) region"
  by (simp add: updateRegion_def spec_integrate_def spec_axis_def spec_applied_x_def Let_def
      odd_iff_mod_2_eq_one)

lemma applyForceRegion_spec:
  "applyForceRegion e fX fY pX pY region
     = (if calculateRegionInfluence pX pY region > 0.01
        then spec_integrate e (fX * calculateRegionInfluence pX pY region)
               (fY * calculateRegionInfluence pX pY region) region
        else region)"
  by (simp add: applyForceRegion_def spec_integrate_def spec_axis_def Let_def)

lemma updateRegions_length: "length (updateRegions e fh i rs) = length rs"
  by (induction rs arbitrary: i) simp_all

lemma updateRegions_nth:
  "k < length rs \<Longrightarrow> updateRegions e fh i rs ! k = updateRegion e fh (i + k) (rs ! k)"
proof (induction rs arbitrary: i k)
  case Nil
  then show ?case by simp
next
  case (Cons r rs)
  then show ?case by (cases k) simp_all
qed

lemma updatePressState_fields:
  "mass (updatePressState e) = mass e"
  "sensitivity (updatePressState e) = sensitivity e"
  "maxDisplacement (updatePressState e) = maxDisplacement e"
  "posThreshold (updatePressState e) = posThreshold e"
  "velThreshold (updatePressState e) = velThreshold e"
  "regions (updatePressState e) = regions e"
  "forceHistory (updatePressState e) = forceHistory e"
  "historyLength (updatePressState e) = historyLength e"
  "vertices (updatePressState e) = vertices e"
  "pressSpeed (updatePressState e) = pressSpeed e"
  "releaseSpeed (updatePressState e) = releaseSpeed e"
  by (simp_all add: updatePressState_def Let_def)

lemma spec_integrate_cong_engine:
  "mass e' = mass e \<Longrightarrow> maxDisplacement e' = maxDisplacement e \<Longrightarrow>
   posThreshold e' = posThreshold e \<Longrightarrow> velThreshold e' = velThreshold e \<Longrightarrow>
   spec_integrate e' = spec_integrate e"
  by (intro ext) (simp add: spec_integrate_def spec_axis_def)

lemma update_state:
  "snd (update f pid e) =
     (updatePressState e)\<lparr>regions := updateRegions (updatePressState e)
         (pushHistory (updatePressState e)
            \<lparr>ent_x = orZero (force_x f) * sensitivity e, ent_y = orZero (force_y f) * sensitivity e,
              patternId = pid\<rparr>) 0 (regions e),
       forceHistory := pushHistory (updatePressState e)
            \<lparr>ent_x = orZero (force_x f) * sensitivity e, ent_y = orZero (force_y f) * sensitivity e,
              patternId = pid\<rparr>\<rparr>"
  by (simp add: update_def Let_def updatePressState_fields)


lemma pushHistory_nonempty:
  "0 < historyLength e \<Longrightarrow> pushHistory e ent \<noteq> []"
  by (cases "forceHistory e") (auto simp: pushHistory_def Let_def)

lemma delayedForce_nth:
  "fh \<noteq> [] \<Longrightarrow> delayedForce fh region = fh ! min (delayFrames region) (length fh - 1)"
proof -
  assume "fh \<noteq> []"
  then have l: "0 < length fh" by simp
  then have "nat (min (int (delayFrames region)) (int (length fh) - 1))
               = min (delayFrames region) (length fh - 1)"
    by (simp add: min_def) linarith
  with l show ?thesis by (simp add: delayedForce_def Let_def min_def)
qed

lemma update_regions_nth:
  assumes "i < length (regions e)"
  shows "regions (snd (update f pid e)) ! i
     = spec_integrate e
         (spec_applied_x (delayedForce (forceHistory (snd (update f pid e))) (regions e ! i)) i)
         (ent_y (delayedForce (forceHistory (snd (update f pid e))) (regions e ! i)))
         (regions e ! i)"
proof -
  have c: "spec_integrate (updatePressState e) = spec_integrate e"
    by (rule spec_integrate_cong_engine) (simp_all add: updatePressState_fields)
  from assms show ?thesis
    by (simp add: update_state updateRegions_nth updateRegion_spec c)
qed


lemma update_regions_length: "length (regions (snd (update f pid e))) = length (regions e)"
  by (simp add: update_state updateRegions_length)




lemma applyForce_regions:
  "regions (snd (applyForceAtPosition f pX pY e))
     = map (\<lambda>region.
          if calculateRegionInfluence pX pY region > 0.01
          then spec_integrate e
                 (orZero (force_x f) * sensitivity e * calculateRegionInfluence pX pY region)
                 (orZero (force_y f) * sensitivity e * calculateRegionInfluence pX pY region)
                 region
          else region) (regions e)"
proof -
  have c: "spec_integrate (updatePressState e) = spec_integrate e"
    by (rule spec_integrate_cong_engine) (simp_all add: updatePressState_fields)
  show ?thesis
    by (simp add: applyForceAtPosition_def Let_def updatePressState_fields
        applyForceRegion_spec[abs_def] c)
qed

lemma applyForce_history:
  "forceHistory (snd (applyForceAtPosition f pX pY e)) = forceHistory e"
  by (simp add: applyForceAtPosition_def Let_def updatePressState_fields)

section \<open>Properties of the press points\<close>

lemma mapGet_mapSet_same: "mapGet k (mapSet k v m) = Some v"
  by (induction m) (auto simp: mapGet_def)

lemma mapGet_mapSet_other: "k' \<noteq> k \<Longrightarrow> mapGet k' (mapSet k v m) = mapGet k' m"
  by (induction m) (auto simp: mapGet_def)

lemma mapSet_keys_present:
  "k \<in> fst ` set m \<Longrightarrow> map fst (mapSet k v m) = map fst m"
proof (induction m)
  case Nil
  then show ?case by simp
next
  case (Cons a m)
  show ?case
  proof (cases "fst a = k")
    case True
    then show ?thesis by (cases a) simp
  next
    case False
    with Cons.prems have "k \<in> fst ` set m" by auto
    with Cons.IH False show ?thesis by (cases a) simp
  qed
qed

lemma mapSet_keys_absent:
  "k \<notin> fst ` set m \<Longrightarrow> map fst (mapSet k v m) = map fst m @ [k]"
  by (induction m) auto

lemma mapSet_distinct: "distinct (map fst m) \<Longrightarrow> distinct (map fst (mapSet k v m))"
  by (cases "k \<in> fst ` set m") (simp_all add: mapSet_keys_present mapSet_keys_absent)

lemma mapGet_Some_key: "mapGet k m = Some v \<Longrightarrow> k \<in> fst ` set m"
  by (auto simp: mapGet_def dest: map_of_SomeD intro: rev_image_eqI)

lemma mapDelete_filter:
  "distinct (map fst m) \<Longrightarrow> mapDelete k m = filter (\<lambda>kv. fst kv \<noteq> k) m"
proof (induction m)
  case Nil
  then show ?case by simp
next
  case (Cons a m)
  obtain k' v' where a: "a = (k', v')" by (cases a)
  from Cons.prems have "k' \<notin> fst ` set m" by (simp add: a)
  then have "filter (\<lambda>kv. fst kv \<noteq> k') m = m" by (auto intro!: filter_True)
  with Cons show ?case by (auto simp: a)
qed

lemma fold_mapDelete_filter:
  "distinct (map fst m) \<Longrightarrow> fold mapDelete ks m = filter (\<lambda>kv. fst kv \<notin> set ks) m"
proof (induction ks arbitrary: m)
  case Nil
  then show ?case by simp
next
  case (Cons k ks)
  have d: "distinct (map fst (filter (\<lambda>kv. fst kv \<noteq> k) m))"
    using Cons.prems by (simp add: distinct_map_filter)
  show ?case
    using Cons.IH[OF d] Cons.prems by (simp add: mapDelete_filter conj_commute)
qed

lemma map_of_filter_keys:
  "map_of (filter (\<lambda>kv. fst kv \<notin> D) m) k = (if k \<in> D then None else map_of m k)"
  by (induction m) auto

lemma eased_fst: "fst \<circ> (\<lambda>(ident, point). (ident, g point)) = fst"
  by (auto simp: fun_eq_iff)

lemma eased_keys:
  "map fst (map (\<lambda>(ident, point). (ident, g point)) m) = map fst m"
  by (simp add: eased_fst)

lemma eased_lookup:
  "map_of (map (\<lambda>(ident, point). (ident, g point)) m) k = map_option g (map_of m k)"
  by (induction m) auto

lemma toDelete_iff:
  assumes "distinct (map fst m)"
  shows "k \<in> set (map fst (filter (\<lambda>(ident, point). P point) m))
           \<longleftrightarrow> (\<exists>p. map_of m k = Some p \<and> P p)"
  using assms by (induction m) (auto simp: rev_image_eqI)

lemma updatePressState_lookup:
  assumes "distinct (map fst (pressPoints e))"
  shows "mapGet k (pressPoints (updatePressState e)) =
     (case mapGet k (pressPoints e) of
        None \<Rightarrow> None
      | Some p \<Rightarrow>
          if \<not> 0 < targetDepth (easePoint e p) \<and> \<bar>depth (easePoint e p)\<bar> < 0.001
          then None else Some (easePoint e p))"
proof -
  let ?pts = "map (\<lambda>(ident, point). (ident, easePoint e point)) (pressPoints e)"
  let ?P = "\<lambda>point. \<not> targetDepth point > 0 \<and> \<bar>depth point\<bar> < 0.001"
  have d: "distinct (map fst ?pts)" using assms by (simp add: eased_fst)
  let ?D = "set (map fst (filter (\<lambda>(ident, point). ?P point) ?pts))"
  have td: "k \<in> ?D \<longleftrightarrow> (\<exists>p. map_of ?pts k = Some p \<and> ?P p)"
    by (rule toDelete_iff[OF d])
  have "pressPoints (updatePressState e) = filter (\<lambda>kv. fst kv \<notin> ?D) ?pts"
    using fold_mapDelete_filter[OF d] by (simp add: updatePressState_def Let_def)
  then have "map_of (pressPoints (updatePressState e)) k
               = (if k \<in> ?D then None else map_of ?pts k)"
    by (simp only: map_of_filter_keys)
  also have "\<dots> = (if (\<exists>p. map_of ?pts k = Some p \<and> ?P p) then None else map_of ?pts k)"
    by (simp only: td)
  finally have "map_of (pressPoints (updatePressState e)) k
     = (if (\<exists>p. map_option (easePoint e) (map_of (pressPoints e) k) = Some p \<and> ?P p)
        then None else map_option (easePoint e) (map_of (pressPoints e) k))"
    by (simp only: eased_lookup)
  then show ?thesis
    by (cases "map_of (pressPoints e) k") (simp_all add: mapGet_def)
qed

lemma easePoint_target: "targetDepth (easePoint e p) = targetDepth p"
  by (simp add: easePoint_def)

lemma easePoint_depth:
  "depth (easePoint e p) = depth p + (targetDepth p - depth p)
      * (if targetDepth p > 0 then pressSpeed e else releaseSpeed e)"
  by (simp add: easePoint_def)

lemma updatePressState_distinct:
  "distinct (map fst (pressPoints e)) \<Longrightarrow> distinct (map fst (pressPoints (updatePressState e)))"
proof -
  assume a: "distinct (map fst (pressPoints e))"
  let ?pts = "map (\<lambda>(ident, point). (ident, easePoint e point)) (pressPoints e)"
  have d: "distinct (map fst ?pts)" using a by (simp add: eased_fst)
  show ?thesis
    using fold_mapDelete_filter[OF d] d
    by (simp add: updatePressState_def Let_def distinct_map_filter)
qed

lemma endPressRegions_zero_depth:
  "depth point = 0 \<Longrightarrow> endPressRegions point rnd n rs = rs"
  by (induction rs arbitrary: n) (simp_all add: Let_def)

lemma press_then_release:
  assumes "distinct (map fst (pressPoints e))"
  shows "mapGet k (pressPoints (updatePressState (endPress k rnd (startPress k x y e)))) = None"
    and "regions (endPress k rnd (startPress k x y e)) = regions e"
proof -
  let ?p = "\<lparr>pp_x = x, pp_y = y, depth = 0, targetDepth = 1.0\<rparr>"
  let ?e1 = "startPress k x y e"
  have g: "mapGet k (pressPoints ?e1) = Some ?p"
    by (simp add: startPress_def mapGet_mapSet_same)
  have e2: "endPress k rnd ?e1 = ?e1\<lparr>regions := endPressRegions ?p rnd 0 (regions ?e1),
       pressPoints := mapSet k (?p\<lparr>targetDepth := 0\<rparr>) (pressPoints ?e1)\<rparr>"
    by (simp add: endPress_def g)
  have d: "distinct (map fst (pressPoints (endPress k rnd ?e1)))"
    unfolding e2 using assms by (simp add: startPress_def mapSet_distinct)
  have l: "mapGet k (pressPoints (endPress k rnd ?e1)) = Some (?p\<lparr>targetDepth := 0\<rparr>)"
    by (simp add: e2 mapGet_mapSet_same)
  show "mapGet k (pressPoints (updatePressState (endPress k rnd ?e1))) = None"
    by (simp add: updatePressState_lookup[OF d] l easePoint_def)
  show "regions (endPress k rnd ?e1) = regions e"
    unfolding e2 by (simp add: endPressRegions_zero_depth startPress_def)
qed

section \<open>Evaluation at the concrete inputs\<close>

lemma ex_engine_regions:
  "regions ex_engine =
     [\<lparr>reg_x = 0.3, reg_y = 0.3, width = 0.4, height = 0.4,
       position = \<lparr>vec_x = 0, vec_y = 0\<rparr>, velocity = \<lparr>vec_x = 0, vec_y = 0\<rparr>,
       stiffness = 0.056, damping = 0.874, delayFrames = 0, phaseOffset = 0\<rparr>]"
  by (simp add: ex_engine_def addRegion_def newEngine_def ex_box_def Let_def)

lemma ex_engine_fields:
  "mass ex_engine = 1" "sensitivity ex_engine = 4" "maxDisplacement ex_engine = 25"
  "posThreshold ex_engine = 0.3" "velThreshold ex_engine = 0.05"
  "forceHistory ex_engine = []" "historyLength ex_engine = 8" "pressPoints ex_engine = []"
  "pressSpeed ex_engine = 0.15" "releaseSpeed ex_engine = 0.08"
  by (simp_all add: ex_engine_def addRegion_def newEngine_def Let_def)

lemma ex_push_history:
  "forceHistory (snd (update ex_push None ex_engine))
     = [\<lparr>ent_x = 400, ent_y = 0, patternId = None\<rparr>]"
  by (simp add: update_state pushHistory_def Let_def updatePressState_fields ex_engine_fields
      ex_push_def orZero_def)

lemma ex_push_region:
  "regions (snd (update ex_push None ex_engine)) ! 0 =
     \<lparr>reg_x = 0.3, reg_y = 0.3, width = 0.4, height = 0.4,
      position = \<lparr>vec_x = 25, vec_y = 0\<rparr>, velocity = \<lparr>vec_x = 400, vec_y = 0\<rparr>,
      stiffness = 0.056, damping = 0.874, delayFrames = 0, phaseOffset = 0\<rparr>"
proof -
  have "0 < length (regions ex_engine)" by (simp add: ex_engine_regions)
  from update_regions_nth[OF this, of ex_push None] show ?thesis
    by (simp add: ex_push_history ex_engine_regions delayedForce_def spec_applied_x_def
        spec_integrate_def spec_axis_def ex_engine_fields clamp_def Let_def)
qed

section \<open>Claims about the clamp (C1)\<close>

lemma clamp_ieee_range:
  "0 \<le> m \<Longrightarrow> clamped_or_nan m (clamp_ieee v (js_neg (Fin m)) (Fin m))"
  by (cases v) (auto simp: clamp_ieee_def)

lemma updateRegion_ieee_positions:
  assumes "eg_maxDisplacement e = Fin m" and "0 \<le> m"
  shows "clamped_or_nan m (rs_position_x (updateRegion_ieee e fh i region))
       \<and> clamped_or_nan m (rs_position_y (updateRegion_ieee e fh i region))"
  using clamp_ieee_range[OF assms(2)] assms(2)
  by (simp add: updateRegion_ieee_def Let_def assms(1))

lemma updateRegions_ieee_length: "length (updateRegions_ieee e fh i rs) = length rs"
  by (induction rs arbitrary: i) simp_all

lemma updateRegions_ieee_nth:
  "k < length rs \<Longrightarrow>
   updateRegions_ieee e fh i rs ! k = updateRegion_ieee e fh (i + k) (rs ! k)"
proof (induction rs arbitrary: i k)
  case Nil
  then show ?case by simp
next
  case (Cons r rs)
  then show ?case by (cases k) simp_all
qed

lemma update_ieee_fields:
  "eg_maxDisplacement (update_ieee f pid e) = eg_maxDisplacement e"
  "length (eg_regions (update_ieee f pid e)) = length (eg_regions e)"
  by (simp_all add: update_ieee_def Let_def updateRegions_ieee_length)

lemma update_ieee_positions:
  assumes "eg_maxDisplacement e = Fin m" and "0 \<le> m" and "i < length (eg_regions e)"
  shows "clamped_or_nan m (rs_position_x (eg_regions (update_ieee f pid e) ! i))
       \<and> clamped_or_nan m (rs_position_y (eg_regions (update_ieee f pid e) ! i))"
  using updateRegion_ieee_positions[OF assms(1,2)] assms(3)
  by (simp add: update_ieee_def Let_def updateRegions_ieee_nth)

lemma runUpdates_ieee_fields:
  "eg_maxDisplacement (runUpdates_ieee steps e) = eg_maxDisplacement e
   \<and> length (eg_regions (runUpdates_ieee steps e)) = length (eg_regions e)"
  by (induction steps arbitrary: e) (auto simp: update_ieee_fields)

lemma runUpdates_ieee_snoc:
  "runUpdates_ieee (steps @ [(f, pid)]) e = update_ieee f pid (runUpdates_ieee steps e)"
  by (induction steps arbitrary: e) auto

lemma maxNumber_large: "1000 < maxNumber"
proof -
  have "(2::real) ^ 971 * 2 \<le> 2 ^ 1024"
    using power_increasing[of 972 1024 "2::real"] by simp
  moreover have "(1000::real) < 2 ^ 10" by simp
  moreover have "(2::real) ^ 10 \<le> 2 ^ 971" by (rule power_increasing) simp_all
  ultimately show ?thesis unfolding maxNumber_def by linarith
qed

lemma js_ov_small: "\<bar>a\<bar> \<le> 1000 \<Longrightarrow> js_ov (Fin a) = Fin a"
  using maxNumber_large by auto

lemma maxNumber_below: "maxNumber < hugeForce * 4"
proof -
  have "(2::real) ^ 1024 < 10 ^ 308 * 4" by simp
  moreover have "(0::real) < 2 ^ 971" by simp
  ultimately show ?thesis unfolding maxNumber_def hugeForce_def by linarith
qed

lemma ov_add_small:
  "\<bar>a + b\<bar> \<le> 1000 \<Longrightarrow> ov_add (Fin a) (Fin b) = Fin (a + b)"
  by (simp add: ov_add_def js_ov_small del: js_ov.simps)

lemma ov_mul_small:
  "\<bar>a * b\<bar> \<le> 1000 \<Longrightarrow> ov_mul (Fin a) (Fin b) = Fin (a * b)"
  by (simp add: ov_mul_def js_ov_small del: js_ov.simps)

lemma ov_div_small:
  "b \<noteq> 0 \<Longrightarrow> \<bar>a / b\<bar> \<le> 1000 \<Longrightarrow> ov_div (Fin a) (Fin b) = Fin (a / b)"
  by (simp add: ov_div_def js_ov_small del: js_ov.simps)

lemma ex_push_ieee_step:
  "eg_regions (update_ieee ex_push_ieee None ex_engine_ieee) =
     [\<lparr>rs_position_x = Fin 25, rs_position_y = Fin 0, rs_velocity_x = Fin 400,
       rs_velocity_y = Fin 0, rs_stiffness = Fin 0.056, rs_damping = Fin 0.874,
       rs_delayFrames = 0\<rparr>]"
  by (simp add: update_ieee_def pushHistory_ieee_def updateRegion_ieee_def
      delayedForce_ieee_def clamp_ieee_def ex_engine_ieee_def ex_rest_region_def
      ex_push_ieee_def Let_def ov_add_small ov_mul_small ov_div_small)

text \<open>
  C1, as the code has it. For a \<open>maxDisplacement\<close> that is a finite non-negative
  number, after every step of every non-empty sequence of \<open>update\<close> calls with
  arbitrary forces and pattern ids, each position component of every region is a number
  in \<open>[-maxDisplacement, maxDisplacement]\<close> or NaN, and never an infinity: the clamp
  is the last operation on the position and lets only NaN through. The velocity is not
  clamped.
\<close>

theorem positions_clamped_or_nan_after_every_step:
  assumes "eg_maxDisplacement e = Fin m" and "0 \<le> m" and "steps \<noteq> []"
    and "i < length (eg_regions e)"
  shows "clamped_or_nan m (rs_position_x (eg_regions (runUpdates_ieee steps e) ! i))
       \<and> clamped_or_nan m (rs_position_y (eg_regions (runUpdates_ieee steps e) ! i))"
proof -
  from assms(3) obtain pre f pid where s: "steps = pre @ [(f, pid)]"
    by (metis rev_exhaust surj_pair)
  have m: "eg_maxDisplacement (runUpdates_ieee pre e) = Fin m"
    using assms(1) by (simp add: runUpdates_ieee_fields)
  have l: "i < length (eg_regions (runUpdates_ieee pre e))"
    using assms(4) by (simp add: runUpdates_ieee_fields)
  from update_ieee_positions[OF m assms(2) l, of f pid] show ?thesis
    by (simp add: s runUpdates_ieee_snoc)
qed

text \<open>
  The theorem at the one-region engine, after one step with force \<open>(100, 0)\<close>: the
  position on the x axis is \<open>25\<close>.
\<close>

theorem positions_clamped_or_nan_witness:
  "eg_maxDisplacement ex_engine_ieee = Fin 25 \<and> (0::real) \<le> 25
   \<and> [(ex_push_ieee, None)] \<noteq> [] \<and> 0 < length (eg_regions ex_engine_ieee)
   \<and> rs_position_x (eg_regions (runUpdates_ieee [(ex_push_ieee, None)] ex_engine_ieee) ! 0)
        = Fin 25
   \<and> clamped_or_nan 25
        (rs_position_x (eg_regions (runUpdates_ieee [(ex_push_ieee, None)] ex_engine_ieee) ! 0))
   \<and> clamped_or_nan 25
        (rs_position_y (eg_regions (runUpdates_ieee [(ex_push_ieee, None)] ex_engine_ieee) ! 0))"
proof -
  have h1: "eg_maxDisplacement ex_engine_ieee = Fin 25" and h2: "(0::real) \<le> 25"
    and h3: "[(ex_push_ieee, None)] \<noteq> []" and h4: "0 < length (eg_regions ex_engine_ieee)"
    by (simp_all add: ex_engine_ieee_def)
  have v: "rs_position_x
             (eg_regions (runUpdates_ieee [(ex_push_ieee, None)] ex_engine_ieee) ! 0) = Fin 25"
    by (simp add: ex_push_ieee_step)
  from positions_clamped_or_nan_after_every_step[OF h1 h2 h3 h4] h1 h2 h3 h4 v
  show ?thesis by blast
qed

text \<open>
  Where the position is NaN: with mass \<open>0\<close> the acceleration of a region at rest is
  \<open>0 / 0\<close>; with a force that overflows, the velocity is infinite after the first step
  and the second step adds the opposite infinities of the damping force and the applied
  force.
\<close>

lemma mass_zero_gives_nan_position:
  "rs_position_x (eg_regions
       (update_ieee ex_none_ieee None (ex_engine_ieee\<lparr>eg_mass := Fin 0\<rparr>)) ! 0) = NaN"
  by (simp add: update_ieee_def pushHistory_ieee_def updateRegion_ieee_def
      delayedForce_ieee_def clamp_ieee_def ex_engine_ieee_def ex_rest_region_def
      ex_none_ieee_def Let_def ov_add_small ov_mul_small)
     (simp add: ov_add_def ov_div_def)

lemma ex_huge_force: "ov_mul (Fin hugeForce) (Fin 4) = PInf"
  using maxNumber_below by (simp add: ov_mul_def)

lemma ex_huge_first_step:
  "update_ieee ex_huge_ieee None ex_engine_ieee =
     ex_engine_ieee\<lparr>eg_regions :=
        [\<lparr>rs_position_x = Fin 25, rs_position_y = Fin 0, rs_velocity_x = PInf,
          rs_velocity_y = Fin 0, rs_stiffness = Fin 0.056, rs_damping = Fin 0.874,
          rs_delayFrames = 0\<rparr>],
       eg_forceHistory := [\<lparr>he_x = PInf, he_y = Fin 0, he_patternId = None\<rparr>]\<rparr>"
  by (simp add: update_ieee_def ex_huge_ieee_def ex_huge_force pushHistory_ieee_def
      updateRegion_ieee_def delayedForce_ieee_def clamp_ieee_def ex_engine_ieee_def
      ex_rest_region_def Let_def ov_add_small ov_mul_small ov_div_small)
     (simp add: ov_add_def ov_div_def)

lemma overflow_gives_nan_position:
  "rs_position_x (eg_regions
       (runUpdates_ieee [(ex_huge_ieee, None), (ex_huge_ieee, None)] ex_engine_ieee) ! 0) = NaN"
proof -
  have "rs_position_x (eg_regions (update_ieee ex_huge_ieee None
          (update_ieee ex_huge_ieee None ex_engine_ieee)) ! 0) = NaN"
    unfolding ex_huge_first_step
    by (simp add: update_ieee_def ex_huge_ieee_def ex_huge_force pushHistory_ieee_def
        updateRegion_ieee_def delayedForce_ieee_def clamp_ieee_def ex_engine_ieee_def
        ex_rest_region_def Let_def ov_add_small ov_mul_small ov_div_small)
       (simp add: ov_add_def ov_div_def ov_mul_def)
  then show ?thesis by simp
qed

text \<open>
  C1 as stated fails for the velocity: one step with force \<open>(100, 0)\<close> and sensitivity
  \<open>4\<close> takes a region that was at rest to the velocity \<open>400\<close> on the x axis, above
  \<open>maxDisplacement = 25\<close>.
\<close>

theorem velocity_exceeds_maxDisplacement:
  "vec_x (velocity (regions (runUpdates [(ex_push, None)] ex_engine) ! 0)) = 400
   \<and> maxDisplacement ex_engine = 25
   \<and> \<not> \<bar>vec_x (velocity (regions (runUpdates [(ex_push, None)] ex_engine) ! 0))\<bar>
          \<le> maxDisplacement ex_engine"
  by (simp add: ex_push_region ex_engine_fields)

section \<open>Claims about the influence field (C2, C6)\<close>

lemma ex_unit_dist: "spec_ellipse_dist 0.5 0.4 ex_unit_region = 0.2"
proof -
  have "sqrt (1 / 25) = (1 / 5 :: real)"
    by (rule real_sqrt_unique) (simp_all add: power2_eq_square)
  then show ?thesis
    by (simp add: spec_ellipse_dist_def ex_unit_region_def power2_eq_square)
qed

lemma ex_unit_influence: "calculateRegionInfluence 0.5 0.4 ex_unit_region = exp (- 0.02) * 1.05"
proof -
  have p: "spec_profile 0.2 = exp (- 0.02)"
    by (simp add: spec_profile_def power2_eq_square)
  have b: "spec_bias 0.4 ex_unit_region = 1.05"
    by (simp add: spec_bias_def clamp_def ex_unit_region_def)
  show ?thesis
    unfolding influence_as_profile ex_unit_dist p b by (rule refl)
qed

lemma ex_unit_dist_far: "spec_ellipse_dist 2 0.5 ex_unit_region = 3"
proof -
  have "sqrt 9 = (3 :: real)"
    by (rule real_sqrt_unique) (simp_all add: power2_eq_square)
  then show ?thesis
    by (simp add: spec_ellipse_dist_def ex_unit_region_def power2_eq_square)
qed

lemma influence_continuous:
  assumes "width r \<noteq> 0" and "height r \<noteq> 0"
  shows "continuous_on UNIV (\<lambda>p. calculateRegionInfluence (fst p) (snd p) r)"
proof -
  have d: "continuous_on UNIV (\<lambda>p. spec_ellipse_dist (fst p) (snd p) r)"
    unfolding spec_ellipse_dist_def using assms by (intro continuous_intros) simp_all
  have p: "continuous_on UNIV (\<lambda>p. spec_profile (spec_ellipse_dist (fst p) (snd p) r))"
    by (rule continuous_on_compose2[OF profile_cont d]) simp
  have b: "continuous_on UNIV (\<lambda>p :: real \<times> real. spec_bias (snd p) r)"
    unfolding spec_bias_def clamp_def by (intro continuous_intros)
  show ?thesis
    unfolding influence_as_profile by (intro continuous_on_mult p b)
qed

text \<open>
  C2. For a region with non-zero width and height, \<open>calculateRegionInfluence\<close> is the
  two-piece radial profile of the normalised ellipse distance \<open>d\<close> (the Gaussian core
  \<open>exp (- 0.5 * d\<^sup>2)\<close> below \<open>0.6\<close>, the cubic fade
  \<open>exp (- 0.5 * 0.6\<^sup>2) * max 0 (1 - t ^ 3)\<close> with \<open>t = (d - 0.6) / 0.9\<close> from
  \<open>0.6\<close> on) multiplied by the vertical bias \<open>clamp (1 + (cy - py) * 0.5) 0.5 1.5\<close>.
  The profile is continuous, in particular at \<open>d = 0.6\<close>, so that the influence is a
  continuous function of the point, and the influence is \<open>0\<close> from \<open>d = 1.5\<close> on.
\<close>

theorem influence_two_piece_formula:
  assumes "width r \<noteq> 0" and "height r \<noteq> 0"
  shows "calculateRegionInfluence px py r
           = spec_profile (spec_ellipse_dist px py r) * spec_bias py r
       \<and> continuous_on UNIV spec_profile
       \<and> isCont spec_profile 0.6
       \<and> continuous_on UNIV (\<lambda>p. calculateRegionInfluence (fst p) (snd p) r)
       \<and> (1.5 \<le> spec_ellipse_dist px py r \<longrightarrow> calculateRegionInfluence px py r = 0)"
proof -
  note c = influence_continuous[OF assms]
  have "isCont spec_profile 0.6"
    using profile_cont by (simp add: continuous_on_eq_continuous_at)
  moreover have "1.5 \<le> spec_ellipse_dist px py r \<longrightarrow> calculateRegionInfluence px py r = 0"
    using profile_zero[of "spec_ellipse_dist px py r"] by (simp add: influence_as_profile)
  ultimately show ?thesis
    using influence_as_profile profile_cont c by blast
qed

text \<open>The theorem at the unit box: a point in the core and a point beyond the fade.\<close>

theorem influence_two_piece_witness:
  "width ex_unit_region \<noteq> 0 \<and> height ex_unit_region \<noteq> 0
   \<and> calculateRegionInfluence 0.5 0.4 ex_unit_region = exp (- 0.02) * 1.05
   \<and> 1.5 \<le> spec_ellipse_dist 2 0.5 ex_unit_region
   \<and> calculateRegionInfluence 2 0.5 ex_unit_region = 0"
proof -
  have w: "width ex_unit_region \<noteq> 0" and h: "height ex_unit_region \<noteq> 0"
    by (simp_all add: ex_unit_region_def)
  have d: "(1.5::real) \<le> spec_ellipse_dist 2 0.5 ex_unit_region"
    unfolding ex_unit_dist_far by simp
  from influence_two_piece_formula[OF w h, where px = 2 and py = "0.5"] d
  have "calculateRegionInfluence 2 0.5 ex_unit_region = 0" by blast
  with w h d ex_unit_influence show ?thesis by blast
qed

text \<open>
  C6, as the code has it. For a region of positive width and height the influence lies in
  \<open>[0, 1.5]\<close>: the radial profile lies in \<open>[0, 1]\<close> and the vertical bias in
  \<open>[0.5, 1.5]\<close>.
\<close>

theorem influence_range_with_bias:
  assumes "0 < width r" and "0 < height r"
  shows "0 \<le> calculateRegionInfluence px py r \<and> calculateRegionInfluence px py r \<le> 1.5"
  using influence_range[of px py r] by simp

text \<open>The theorem at the unit box and the point \<open>(0.5, 0.4)\<close>.\<close>

theorem influence_range_witness:
  "0 < width ex_unit_region \<and> 0 < height ex_unit_region
   \<and> 0 \<le> calculateRegionInfluence 0.5 0.4 ex_unit_region
   \<and> calculateRegionInfluence 0.5 0.4 ex_unit_region \<le> 1.5"
proof -
  have w: "0 < width ex_unit_region" and h: "0 < height ex_unit_region"
    by (simp_all add: ex_unit_region_def)
  from influence_range_with_bias[OF w h, where px = "0.5" and py = "0.4"] w h
  show ?thesis by blast
qed

text \<open>
  C6 as stated fails: at the point \<open>(0.5, 0.4)\<close>, above the centre of the unit box, the
  influence is \<open>exp (- 0.02) * 1.05\<close>, which is greater than \<open>1\<close>.
\<close>

theorem influence_above_one:
  "0 < width ex_unit_region \<and> 0 < height ex_unit_region
   \<and> \<not> (0 \<le> calculateRegionInfluence 0.5 0.4 ex_unit_region
        \<and> calculateRegionInfluence 0.5 0.4 ex_unit_region \<le> 1)"
proof -
  have "1 + (- 0.02 :: real) \<le> exp (- 0.02)" by (rule exp_ge_add_one_self)
  then have "(0.98 :: real) \<le> exp (- 0.02)" by simp
  then have "1 < exp (- 0.02) * (1.05 :: real)" by simp
  then have "1 < calculateRegionInfluence 0.5 0.4 ex_unit_region"
    unfolding ex_unit_influence .
  moreover have "0 < width ex_unit_region" and "0 < height ex_unit_region"
    by (simp_all add: ex_unit_region_def)
  ultimately show ?thesis by simp
qed

section \<open>Claims about the force history and the knead patterns (C3, C5)\<close>













section \<open>Claims about \<open>applyForceAtPosition\<close> (C4)\<close>

lemma applyForce_regions_length:
  "length (regions (snd (applyForceAtPosition f pX pY e))) = length (regions e)"
  by (simp add: applyForce_regions)

text \<open>
  C4, as the code has it. For a non-zero mass, \<open>applyForceAtPosition\<close> advances a
  region of non-zero width and height, with the applied force scaled by its influence at
  the pointer and without history delay or knead mirroring, by the integration sequence
  of \<open>update\<close> only when that influence is above \<open>0.01\<close>; every other such region is
  left as it is. The force history is not touched.
\<close>

theorem applyForceAtPosition_gated_by_influence:
  assumes "i < length (regions e)"
    and "width (regions e ! i) \<noteq> 0" and "height (regions e ! i) \<noteq> 0"
    and "mass e \<noteq> 0"
  shows "regions (snd (applyForceAtPosition f pX pY e)) ! i
           = (if calculateRegionInfluence pX pY (regions e ! i) > 0.01
              then spec_integrate e
                     (orZero (force_x f) * sensitivity e
                        * calculateRegionInfluence pX pY (regions e ! i))
                     (orZero (force_y f) * sensitivity e
                        * calculateRegionInfluence pX pY (regions e ! i))
                     (regions e ! i)
              else regions e ! i)
       \<and> forceHistory (snd (applyForceAtPosition f pX pY e)) = forceHistory e
       \<and> updateRegion e fh i (regions e ! i)
           = spec_integrate e (spec_applied_x (delayedForce fh (regions e ! i)) i)
               (ent_y (delayedForce fh (regions e ! i))) (regions e ! i)"
  using assms(1) by (simp add: applyForce_regions applyForce_history updateRegion_spec)

lemma ex_center_influence:
  "calculateRegionInfluence 0.5 0.5 (regions ex_engine ! 0) = 1"
proof -
  have d: "spec_ellipse_dist 0.5 0.5 (regions ex_engine ! 0) = 0"
    by (simp add: spec_ellipse_dist_def ex_engine_regions)
  have p: "spec_profile 0 = 1" by (simp add: spec_profile_def)
  have b: "spec_bias 0.5 (regions ex_engine ! 0) = 1"
    by (simp add: spec_bias_def clamp_def ex_engine_regions)
  show ?thesis unfolding influence_as_profile d p b by simp
qed

lemma ex_far_regions:
  "regions ex_far_engine =
        [\<lparr>reg_x = 0, reg_y = 0, width = 0.2, height = 0.2,
          position = \<lparr>vec_x = 10, vec_y = 0\<rparr>, velocity = \<lparr>vec_x = 0, vec_y = 0\<rparr>,
          stiffness = 0.08, damping = 0.92, delayFrames = 0, phaseOffset = 0\<rparr>]"
  by (simp add: ex_far_engine_def)

lemma ex_far_fields:
  "mass ex_far_engine = 1" "sensitivity ex_far_engine = 4" "maxDisplacement ex_far_engine = 25"
  "posThreshold ex_far_engine = 0.3" "velThreshold ex_far_engine = 0.05"
  by (simp_all add: ex_far_engine_def newEngine_def)

lemma ex_far_influence:
  "calculateRegionInfluence 0.9 0.1 (regions ex_far_engine ! 0) = 0"
proof -
  have "sqrt 64 = (8 :: real)"
    by (rule real_sqrt_unique) (simp_all add: power2_eq_square)
  then have d: "spec_ellipse_dist 0.9 0.1 (regions ex_far_engine ! 0) = 8"
    by (simp add: spec_ellipse_dist_def ex_far_regions power2_eq_square)
  have p: "spec_profile 8 = 0" by (rule profile_zero) simp
  show ?thesis unfolding influence_as_profile d p by simp
qed

text \<open>
  The theorem at a pointer on the centre of the region (influence \<open>1\<close>) and at a
  pointer far from the region (influence \<open>0\<close>).
\<close>

theorem applyForceAtPosition_witness:
  "0 < length (regions ex_engine) \<and> 0 < length (regions ex_far_engine)
   \<and> width (regions ex_engine ! 0) \<noteq> 0 \<and> height (regions ex_engine ! 0) \<noteq> 0
   \<and> mass ex_engine \<noteq> 0
   \<and> width (regions ex_far_engine ! 0) \<noteq> 0 \<and> height (regions ex_far_engine ! 0) \<noteq> 0
   \<and> mass ex_far_engine \<noteq> 0
   \<and> regions (snd (applyForceAtPosition ex_push 0.5 0.5 ex_engine)) ! 0
       = spec_integrate ex_engine 400 0 (regions ex_engine ! 0)
   \<and> regions (snd (applyForceAtPosition ex_push 0.9 0.1 ex_far_engine)) ! 0
       = regions ex_far_engine ! 0"
proof -
  have l1: "0 < length (regions ex_engine)" and w1: "width (regions ex_engine ! 0) \<noteq> 0"
    and h1: "height (regions ex_engine ! 0) \<noteq> 0" and m1: "mass ex_engine \<noteq> 0"
    by (simp_all add: ex_engine_regions ex_engine_fields)
  have l2: "0 < length (regions ex_far_engine)"
    and w2: "width (regions ex_far_engine ! 0) \<noteq> 0"
    and h2: "height (regions ex_far_engine ! 0) \<noteq> 0" and m2: "mass ex_far_engine \<noteq> 0"
    by (simp_all add: ex_far_regions ex_far_fields)
  have a: "regions (snd (applyForceAtPosition ex_push 0.5 0.5 ex_engine)) ! 0
       = spec_integrate ex_engine 400 0 (regions ex_engine ! 0)"
    using applyForceAtPosition_gated_by_influence[OF l1 w1 h1 m1, where f = ex_push
        and pX = "0.5" and pY = "0.5"]
    unfolding ex_center_influence by (simp add: ex_push_def orZero_def ex_engine_fields)
  have b: "regions (snd (applyForceAtPosition ex_push 0.9 0.1 ex_far_engine)) ! 0
       = regions ex_far_engine ! 0"
    using applyForceAtPosition_gated_by_influence[OF l2 w2 h2 m2, where f = ex_push
        and pX = "0.9" and pY = "0.1"]
    unfolding ex_far_influence by simp
  from l1 l2 w1 h1 m1 w2 h2 m2 a b show ?thesis by blast
qed

lemma ex_far_integrated:
  "spec_integrate ex_far_engine 0 0 (regions ex_far_engine ! 0) =
        \<lparr>reg_x = 0, reg_y = 0, width = 0.2, height = 0.2,
          position = \<lparr>vec_x = 9.2, vec_y = 0\<rparr>, velocity = \<lparr>vec_x = - 0.8, vec_y = 0\<rparr>,
          stiffness = 0.08, damping = 0.92, delayFrames = 0, phaseOffset = 0\<rparr>"
  by (simp add: spec_integrate_def spec_axis_def ex_far_regions ex_far_fields clamp_def Let_def)

text \<open>
  C4 as stated fails: a region displaced to \<open>(10, 0)\<close> whose influence at the pointer
  is \<open>0\<close> is left unchanged by the call, while the integration sequence would apply
  its spring force and move it.
\<close>

theorem far_region_not_integrated:
  "regions (snd (applyForceAtPosition ex_push 0.9 0.1 ex_far_engine)) ! 0
     = regions ex_far_engine ! 0
   \<and> position (regions ex_far_engine ! 0) = \<lparr>vec_x = 10, vec_y = 0\<rparr>
   \<and> regions (snd (applyForceAtPosition ex_push 0.9 0.1 ex_far_engine)) ! 0
     \<noteq> spec_integrate ex_far_engine
         (orZero (force_x ex_push) * sensitivity ex_far_engine
            * calculateRegionInfluence 0.9 0.1 (regions ex_far_engine ! 0))
         (orZero (force_y ex_push) * sensitivity ex_far_engine
            * calculateRegionInfluence 0.9 0.1 (regions ex_far_engine ! 0))
         (regions ex_far_engine ! 0)"
proof -
  have l: "0 < length (regions ex_far_engine)" by (simp add: ex_far_regions)
  have a: "regions (snd (applyForceAtPosition ex_push 0.9 0.1 ex_far_engine)) ! 0
     = regions ex_far_engine ! 0"
    unfolding applyForce_regions nth_map[OF l] ex_far_influence by simp
  have b: "position (regions ex_far_engine ! 0) = \<lparr>vec_x = 10, vec_y = 0\<rparr>"
    by (simp add: ex_far_regions)
  have "position (spec_integrate ex_far_engine 0 0 (regions ex_far_engine ! 0))
          \<noteq> position (regions ex_far_engine ! 0)"
    unfolding ex_far_integrated by (simp add: ex_far_regions)
  then have c: "regions ex_far_engine ! 0
                  \<noteq> spec_integrate ex_far_engine 0 0 (regions ex_far_engine ! 0)"
    by metis
  show ?thesis unfolding a ex_far_influence using b c by simp
qed

section \<open>Claims about the press points (C9, C10)\<close>

lemma release_step:
  assumes "distinct (map fst (pressPoints e))" and "releaseSpeed e = 0.08"
    and "mapGet k (pressPoints e) = Some p" and "targetDepth p = 0"
  shows "mapGet k (pressPoints (updatePressState e)) =
           (if \<bar>depth p * 0.92\<bar> < 0.001 then None
            else Some (p\<lparr>depth := depth p * 0.92\<rparr>))"
proof -
  have e: "easePoint e p = p\<lparr>depth := depth p * 0.92\<rparr>"
    unfolding easePoint_def assms(2) using assms(4) by simp
  have t: "targetDepth (p\<lparr>depth := depth p * 0.92\<rparr>) = 0"
    and d: "depth (p\<lparr>depth := depth p * 0.92\<rparr>) = depth p * 0.92"
    using assms(4) by simp_all
  show ?thesis
    unfolding updatePressState_lookup[OF assms(1)] assms(3) option.case e t d by simp
qed

lemma release_iterate:
  assumes "distinct (map fst (pressPoints e))" and "releaseSpeed e = 0.08"
    and "mapGet k (pressPoints e) = Some p" and "targetDepth p = 0"
  shows "mapGet k (pressPoints ((updatePressState ^^ n) e)) = None
       \<or> (\<exists>q. mapGet k (pressPoints ((updatePressState ^^ n) e)) = Some q
              \<and> targetDepth q = 0 \<and> depth q = depth p * 0.92 ^ n
              \<and> (0 < n \<longrightarrow> \<not> \<bar>depth q\<bar> < 0.001))"
proof (induction n)
  case 0
  then show ?case using assms(3,4) by simp
next
  case (Suc n)
  let ?en = "(updatePressState ^^ n) e"
  have dn: "distinct (map fst (pressPoints ?en))"
    by (induction n) (simp_all add: assms(1) updatePressState_distinct)
  have rn: "releaseSpeed ?en = 0.08"
    by (induction n) (simp_all add: assms(2) updatePressState_fields)
  from Suc show ?case
  proof
    assume "mapGet k (pressPoints ?en) = None"
    then show ?thesis by (simp add: updatePressState_lookup[OF dn])
  next
    assume "\<exists>q. mapGet k (pressPoints ?en) = Some q \<and> targetDepth q = 0
              \<and> depth q = depth p * 0.92 ^ n \<and> (0 < n \<longrightarrow> \<not> \<bar>depth q\<bar> < 0.001)"
    then obtain q where q: "mapGet k (pressPoints ?en) = Some q" "targetDepth q = 0"
      "depth q = depth p * 0.92 ^ n" by blast
    show ?thesis
      using release_step[OF dn rn q(1,2)] q(2,3) by (auto simp: mult.assoc)
  qed
qed

lemma shrink_below:
  "(x::real) + c < t \<Longrightarrow> 0 \<le> x \<Longrightarrow> 0 \<le> c \<Longrightarrow> 0.92 * x < t"
proof -
  assume a: "x + c < t" and x: "0 \<le> x" and c: "0 \<le> c"
  have "0.92 * x \<le> x" using x by simp
  with a c show ?thesis by simp
qed

lemma release_eventually:
  assumes "distinct (map fst (pressPoints e))" and "releaseSpeed e = 0.08"
    and "mapGet k (pressPoints e) = Some p" and "targetDepth p = 0"
  shows "\<exists>n. mapGet k (pressPoints ((updatePressState ^^ n) e)) = None"
proof -
  have pos: "0 < \<bar>depth p\<bar> + 1" by simp
  have "\<exists>n. (0.92 :: real) ^ n < 0.001 / (\<bar>depth p\<bar> + 1)"
    by (rule real_arch_pow_inv) simp_all
  then obtain n where n: "(0.92 :: real) ^ n < 0.001 / (\<bar>depth p\<bar> + 1)" by blast
  define c :: real where "c = 0.92 ^ n"
  have c0: "0 \<le> c" by (simp add: c_def)
  from n have "c * (\<bar>depth p\<bar> + 1) < 0.001"
    unfolding c_def by (simp only: pos_less_divide_eq[OF pos])
  then have a: "c * \<bar>depth p\<bar> + c < 0.001" by (simp add: algebra_simps)
  have x0: "0 \<le> c * \<bar>depth p\<bar>" using c0 by simp
  have "\<bar>depth p * 0.92 ^ Suc n\<bar> = 0.92 * (c * \<bar>depth p\<bar>)"
    by (simp add: abs_mult c_def)
  with shrink_below[OF a x0 c0] have small: "\<bar>depth p * 0.92 ^ Suc n\<bar> < 0.001"
    by (simp only:)
  from release_iterate[OF assms, of "Suc n"] small
  have "mapGet k (pressPoints ((updatePressState ^^ Suc n) e)) = None" by auto
  then show ?thesis by (rule exI)
qed

text \<open>
  C9. With \<open>pressSpeed = 0.15\<close> and \<open>releaseSpeed = 0.08\<close>, one
  \<open>updatePressState\<close> step moves the depth of every point by
  \<open>(targetDepth - depth) * rate\<close>, the rate being \<open>0.15\<close> while
  \<open>targetDepth > 0\<close> and \<open>0.08\<close> otherwise, and deletes the point when it is
  releasing and the new depth is below \<open>0.001\<close> in absolute value. A releasing point
  of any depth is gone after finitely many steps. \<open>startPress\<close> followed at once by
  \<open>endPress\<close> leaves the regions as they are, and the point is gone after one
  \<open>updatePressState\<close> step.
\<close>

theorem press_depth_eases_and_point_is_removed:
  assumes "distinct (map fst (pressPoints e))"
    and "pressSpeed e = 0.15" and "releaseSpeed e = 0.08"
  shows "mapGet k (pressPoints (updatePressState e)) =
           (case mapGet k (pressPoints e) of
              None \<Rightarrow> None
            | Some p \<Rightarrow>
                (let rate = (if targetDepth p > 0 then 0.15 else 0.08);
                     d' = depth p + (targetDepth p - depth p) * rate
                 in if \<not> targetDepth p > 0 \<and> \<bar>d'\<bar> < 0.001 then None
                    else Some (p\<lparr>depth := d'\<rparr>)))
       \<and> (mapGet k (pressPoints e) = Some q \<and> targetDepth q = 0
            \<longrightarrow> (\<exists>n. mapGet k (pressPoints ((updatePressState ^^ n) e)) = None))
       \<and> mapGet k (pressPoints (updatePressState (endPress k rnd (startPress k x y e)))) = None
       \<and> regions (endPress k rnd (startPress k x y e)) = regions e"
proof -
  have "mapGet k (pressPoints (updatePressState e)) =
           (case mapGet k (pressPoints e) of
              None \<Rightarrow> None
            | Some p \<Rightarrow>
                (let rate = (if targetDepth p > 0 then 0.15 else 0.08);
                     d' = depth p + (targetDepth p - depth p) * rate
                 in if \<not> targetDepth p > 0 \<and> \<bar>d'\<bar> < 0.001 then None
                    else Some (p\<lparr>depth := d'\<rparr>)))"
    unfolding updatePressState_lookup[OF assms(1)] easePoint_def assms(2,3)
    by (simp add: Let_def split: option.splits)
  moreover have "mapGet k (pressPoints e) = Some q \<and> targetDepth q = 0
            \<longrightarrow> (\<exists>n. mapGet k (pressPoints ((updatePressState ^^ n) e)) = None)"
    using release_eventually[OF assms(1,3)] by blast
  ultimately show ?thesis using press_then_release[OF assms(1)] by blast
qed

lemma ex_pressed_points:
  "pressPoints ex_pressed = [(0, \<lparr>pp_x = 0.5, pp_y = 0.5, depth = 0.15, targetDepth = 1\<rparr>)]"
  by (simp add: ex_pressed_def updatePressState_def startPress_def ex_engine_fields
      easePoint_def Let_def)

lemma ex_releasing_points:
  "pressPoints ex_releasing = [(0, \<lparr>pp_x = 0.5, pp_y = 0.5, depth = 0.15, targetDepth = 0\<rparr>)]"
  by (simp add: ex_releasing_def endPress_def ex_pressed_points mapGet_def)

text \<open>
  The theorem at a point pressed on the one-region engine, and at the same point
  releasing at depth \<open>0.15\<close>.
\<close>

theorem press_depth_witness:
  "distinct (map fst (pressPoints (startPress 0 0.5 0.5 ex_engine)))
   \<and> pressSpeed (startPress 0 0.5 0.5 ex_engine) = 0.15
   \<and> releaseSpeed (startPress 0 0.5 0.5 ex_engine) = 0.08
   \<and> mapGet 0 (pressPoints (updatePressState (startPress 0 0.5 0.5 ex_engine)))
       = Some \<lparr>pp_x = 0.5, pp_y = 0.5, depth = 0.15, targetDepth = 1\<rparr>
   \<and> mapGet 0 (pressPoints (updatePressState (endPress 0 (\<lambda>n. 0.5)
         (startPress 0 0.2 0.2 (startPress 0 0.5 0.5 ex_engine))))) = None
   \<and> distinct (map fst (pressPoints ex_releasing))
   \<and> pressSpeed ex_releasing = 0.15 \<and> releaseSpeed ex_releasing = 0.08
   \<and> mapGet 0 (pressPoints ex_releasing)
       = Some \<lparr>pp_x = 0.5, pp_y = 0.5, depth = 0.15, targetDepth = 0\<rparr>
   \<and> (\<exists>n. mapGet 0 (pressPoints ((updatePressState ^^ n) ex_releasing)) = None)"
proof -
  let ?e = "startPress 0 0.5 0.5 ex_engine"
  have p: "pressPoints ?e = [(0, \<lparr>pp_x = 0.5, pp_y = 0.5, depth = 0, targetDepth = 1\<rparr>)]"
    by (simp add: startPress_def ex_engine_fields)
  have h1: "distinct (map fst (pressPoints ?e))" unfolding p by simp
  have h2: "pressSpeed ?e = 0.15" and h3: "releaseSpeed ?e = 0.08"
    by (simp_all add: startPress_def ex_engine_fields)
  note t = press_depth_eases_and_point_is_removed[OF h1 h2 h3, where k = 0 and x = "0.2"
      and y = "0.2" and rnd = "\<lambda>n. 0.5"]
  have a: "mapGet 0 (pressPoints (updatePressState ?e))
       = Some \<lparr>pp_x = 0.5, pp_y = 0.5, depth = 0.15, targetDepth = 1\<rparr>"
    using t unfolding p by (simp add: mapGet_def Let_def)
  from t have b: "mapGet 0 (pressPoints (updatePressState (endPress 0 (\<lambda>n. 0.5)
         (startPress 0 0.2 0.2 ?e)))) = None" by blast
  have g1: "distinct (map fst (pressPoints ex_releasing))"
    unfolding ex_releasing_points by simp
  have g2: "pressSpeed ex_releasing = 0.15" and g3: "releaseSpeed ex_releasing = 0.08"
    by (simp_all add: ex_releasing_def ex_pressed_def endPress_def updatePressState_fields
        startPress_def ex_engine_fields split: option.splits)
  have g4: "mapGet 0 (pressPoints ex_releasing)
       = Some \<lparr>pp_x = 0.5, pp_y = 0.5, depth = 0.15, targetDepth = 0\<rparr>"
    unfolding ex_releasing_points by (simp add: mapGet_def)
  have g5: "targetDepth \<lparr>pp_x = 0.5, pp_y = 0.5, depth = 0.15, targetDepth = 0\<rparr> = 0"
    by simp
  from press_depth_eases_and_point_is_removed[OF g1 g2 g3, where k = 0
      and q = "\<lparr>pp_x = 0.5, pp_y = 0.5, depth = 0.15, targetDepth = 0\<rparr>"] g4 g5
  have c: "\<exists>n. mapGet 0 (pressPoints ((updatePressState ^^ n) ex_releasing)) = None"
    by blast
  from h1 h2 h3 a b g1 g2 g3 g4 c show ?thesis by blast
qed

text \<open>
  C10. \<open>startPress\<close> on an id that is already present replaces its point by a fresh
  one at the new position with depth \<open>0\<close> and target depth \<open>1\<close>; the keys and
  every other point stay as they are.
\<close>

theorem startPress_replaces_existing_point:
  assumes "mapGet k (pressPoints e) = Some old" and "k' \<noteq> k"
  shows "mapGet k (pressPoints (startPress k x y e))
           = Some \<lparr>pp_x = x, pp_y = y, depth = 0, targetDepth = 1\<rparr>
       \<and> map fst (pressPoints (startPress k x y e)) = map fst (pressPoints e)
       \<and> mapGet k' (pressPoints (startPress k x y e)) = mapGet k' (pressPoints e)"
  using assms mapGet_Some_key[OF assms(1)]
  by (simp add: startPress_def mapGet_mapSet_same mapGet_mapSet_other mapSet_keys_present)

text \<open>The theorem at a point that is releasing at depth \<open>0.15\<close>.\<close>

theorem startPress_replaces_witness:
  "mapGet 0 (pressPoints ex_releasing)
     = Some \<lparr>pp_x = 0.5, pp_y = 0.5, depth = 0.15, targetDepth = 0\<rparr>
   \<and> (1::int) \<noteq> 0
   \<and> pressPoints (startPress 0 0.2 0.3 ex_releasing)
       = [(0, \<lparr>pp_x = 0.2, pp_y = 0.3, depth = 0, targetDepth = 1\<rparr>)]
   \<and> mapGet 0 (pressPoints (startPress 0 0.2 0.3 ex_releasing))
       = Some \<lparr>pp_x = 0.2, pp_y = 0.3, depth = 0, targetDepth = 1\<rparr>"
proof -
  have h: "mapGet 0 (pressPoints ex_releasing)
     = Some \<lparr>pp_x = 0.5, pp_y = 0.5, depth = 0.15, targetDepth = 0\<rparr>"
    by (simp add: ex_releasing_points mapGet_def)
  have n: "(1::int) \<noteq> 0" by simp
  from startPress_replaces_existing_point[OF h n, where x = "0.2" and y = "0.3"]
  have a: "mapGet 0 (pressPoints (startPress 0 0.2 0.3 ex_releasing))
       = Some \<lparr>pp_x = 0.2, pp_y = 0.3, depth = 0, targetDepth = 1\<rparr>" by blast
  have b: "pressPoints (startPress 0 0.2 0.3 ex_releasing)
       = [(0, \<lparr>pp_x = 0.2, pp_y = 0.3, depth = 0, targetDepth = 1\<rparr>)]"
    by (simp add: startPress_def ex_releasing_points)
  from h n a b show ?thesis by blast
qed

section \<open>Claims about \<open>reset\<close> (C7)\<close>

lemma reset_fields:
  "regions (reset e) = map (\<lambda>r. r\<lparr>position := zeroVec, velocity := zeroVec\<rparr>) (regions e)"
  "forceHistory (reset e) = []"
  "pressPoints (reset e) = pressPoints e"
  "maxDisplacement (reset e) = maxDisplacement e"
  "mass (reset e) = mass e"
  "map baseX (vertices (reset e)) = map baseX (vertices e)"
  "map baseY (vertices (reset e)) = map baseY (vertices e)"
  by (simp_all add: reset_def zeroVec_def comp_def)

lemma reset_quiet:
  "0 \<le> maxDisplacement e \<Longrightarrow> pressPoints e = [] \<Longrightarrow> quiet (reset e)"
  by (simp add: quiet_def reset_fields list_all_iff atRest_def)

lemma spec_axis_rest:
  "0 \<le> maxDisplacement e \<Longrightarrow> spec_axis e r 0 0 0 = (0, 0)"
  by (simp add: spec_axis_def clamp_def Let_def)

lemma spec_integrate_rest:
  assumes "0 \<le> maxDisplacement e" and "atRest r"
  shows "spec_integrate e 0 0 r = r"
  using assms(2) spec_axis_rest[OF assms(1)]
  by (simp add: spec_integrate_def atRest_def zeroVec_def)

lemma delayedForce_zero:
  assumes "list_all (\<lambda>ent. ent_x ent = 0 \<and> ent_y ent = 0) fh"
  shows "ent_x (delayedForce fh r) = 0 \<and> ent_y (delayedForce fh r) = 0"
proof (cases "fh = []")
  case True
  then show ?thesis by (simp add: delayedForce_def)
next
  case False
  then have "min (delayFrames r) (length fh - 1) < length fh" by (cases fh) auto
  then have "fh ! min (delayFrames r) (length fh - 1) \<in> set fh" by (rule nth_mem)
  with assms show ?thesis by (auto simp: delayedForce_nth[OF False] list_all_iff)
qed

lemma updateRegion_rest:
  assumes "0 \<le> maxDisplacement e" and "atRest r"
    and "list_all (\<lambda>ent. ent_x ent = 0 \<and> ent_y ent = 0) fh"
  shows "updateRegion e fh i r = r"
  using delayedForce_zero[OF assms(3), of r] spec_integrate_rest[OF assms(1,2)]
  by (simp add: updateRegion_spec spec_applied_x_def)

lemma updateRegions_rest:
  assumes "0 \<le> maxDisplacement e"
    and "list_all (\<lambda>ent. ent_x ent = 0 \<and> ent_y ent = 0) fh"
  shows "list_all atRest rs \<Longrightarrow> updateRegions e fh i rs = rs"
  by (induction rs arbitrary: i) (simp_all add: updateRegion_rest[OF assms(1) _ assms(2)])

lemma updatePressState_empty: "pressPoints e = [] \<Longrightarrow> updatePressState e = e"
  by (simp add: updatePressState_def)

lemma pushHistory_zero:
  assumes "list_all (\<lambda>ent. ent_x ent = 0 \<and> ent_y ent = 0) (forceHistory e)"
  shows "list_all (\<lambda>ent. ent_x ent = 0 \<and> ent_y ent = 0)
           (pushHistory e \<lparr>ent_x = 0, ent_y = 0, patternId = pid\<rparr>)"
  using assms by (auto simp: pushHistory_def Let_def list_all_iff dest: in_set_butlastD)

lemma update_quiet:
  assumes "quiet e"
  shows "quiet (snd (update zeroForce pid e))"
    and "regions (snd (update zeroForce pid e)) = regions e"
    and "pressPoints (snd (update zeroForce pid e)) = pressPoints e"
    and "vertices (snd (update zeroForce pid e)) = vertices e"
proof -
  from assms have m: "0 \<le> maxDisplacement e" and p: "pressPoints e = []"
    and r: "list_all atRest (regions e)"
    and h: "list_all (\<lambda>ent. ent_x ent = 0 \<and> ent_y ent = 0) (forceHistory e)"
    by (simp_all add: quiet_def)
  let ?fh = "pushHistory e \<lparr>ent_x = 0, ent_y = 0, patternId = pid\<rparr>"
  have s: "snd (update zeroForce pid e)
             = e\<lparr>regions := updateRegions e ?fh 0 (regions e), forceHistory := ?fh\<rparr>"
    by (simp add: update_state updatePressState_empty[OF p] zeroForce_def orZero_def)
  have z: "list_all (\<lambda>ent. ent_x ent = 0 \<and> ent_y ent = 0) ?fh"
    by (rule pushHistory_zero[OF h])
  have u: "updateRegions e ?fh 0 (regions e) = regions e"
    by (rule updateRegions_rest[OF m z r])
  show "regions (snd (update zeroForce pid e)) = regions e" by (simp add: s u)
  show "pressPoints (snd (update zeroForce pid e)) = pressPoints e" by (simp add: s)
  show "vertices (snd (update zeroForce pid e)) = vertices e" by (simp add: s)
  show "quiet (snd (update zeroForce pid e))"
    using m p r z by (simp add: quiet_def s u)
qed

lemma runUpdates_quiet:
  assumes "quiet e"
  shows "quiet (runUpdates (map (Pair zeroForce) pids) e)
       \<and> regions (runUpdates (map (Pair zeroForce) pids) e) = regions e
       \<and> pressPoints (runUpdates (map (Pair zeroForce) pids) e) = pressPoints e
       \<and> vertices (runUpdates (map (Pair zeroForce) pids) e) = vertices e"
  using assms
proof (induction pids arbitrary: e)
  case Nil
  then show ?case by simp
next
  case (Cons pid pids)
  from Cons.IH[OF update_quiet(1)[OF Cons.prems, of pid]] update_quiet(2-4)[OF Cons.prems, of pid]
  show ?case by simp
qed

lemma displacements_cong:
  "regions e' = regions e \<Longrightarrow> pressPoints e' = pressPoints e \<Longrightarrow> vertices e' = vertices e \<Longrightarrow>
   calculateVertexDisplacements e' = calculateVertexDisplacements e"
  by (simp add: calculateVertexDisplacements_def vertexDisplacement_def[abs_def])

lemma update_returns_displacements:
  "fst (update f pid e) = calculateVertexDisplacements (snd (update f pid e))"
  by (simp add: update_def Let_def)

lemma regionStep_rest:
  "list_all atRest rs \<Longrightarrow> \<exists>w'. foldl (regionStep v) (0, 0, w) rs = (0, 0, w')"
  by (induction rs arbitrary: w) (auto simp: atRest_def zeroVec_def Let_def)

lemma vertexDisplacement_rest:
  assumes "list_all atRest (regions e)" and "pressPoints e = []"
  shows "smp_dx (vertexDisplacement e v) = 0 \<and> smp_dy (vertexDisplacement e v) = 0"
proof -
  from regionStep_rest[OF assms(1), of v 0] obtain w'
    where "foldl (regionStep v) (0, 0, 0) (regions e) = (0, 0, w')" by blast
  then show ?thesis by (simp add: vertexDisplacement_def assms(2))
qed

lemma displacements_rest:
  assumes "quiet e" and "j < length (vertices e)"
  shows "smp_dx (calculateVertexDisplacements e ! j) = 0
       \<and> smp_dy (calculateVertexDisplacements e ! j) = 0"
  using assms vertexDisplacement_rest[of e "vertices e ! j"]
  by (simp add: calculateVertexDisplacements_def quiet_def)

text \<open>
  C7. \<open>reset\<close> sets the position and velocity of every region to \<open>(0, 0)\<close> and
  empties the force history; the region list keeps its length, its ellipses and its
  per-region constants. With a non-negative \<open>maxDisplacement\<close>, a non-zero mass and no
  press points, any number of \<open>update\<close> calls with the force \<open>(0, 0)\<close> after
  \<open>reset\<close> leaves the regions as \<open>reset\<close> left them, every call returns the
  displacement array of the state right after \<open>reset\<close>, and every sample of it has
  \<open>dx = 0\<close> and \<open>dy = 0\<close>.
\<close>

theorem reset_then_zero_steps_stays_at_rest:
  assumes "0 \<le> maxDisplacement e" and "mass e \<noteq> 0" and "pressPoints e = []"
    and "j < length (vertices e)"
  shows "regions (reset e)
           = map (\<lambda>r. r\<lparr>position := \<lparr>vec_x = 0, vec_y = 0\<rparr>,
                         velocity := \<lparr>vec_x = 0, vec_y = 0\<rparr>\<rparr>) (regions e)
       \<and> forceHistory (reset e) = []
       \<and> regions (runUpdates (map (Pair zeroForce) pids) (reset e)) = regions (reset e)
       \<and> calculateVertexDisplacements (runUpdates (map (Pair zeroForce) pids) (reset e))
           = calculateVertexDisplacements (reset e)
       \<and> fst (update zeroForce pid (runUpdates (map (Pair zeroForce) pids) (reset e)))
           = calculateVertexDisplacements (reset e)
       \<and> smp_dx (calculateVertexDisplacements
                   (runUpdates (map (Pair zeroForce) pids) (reset e)) ! j) = 0
       \<and> smp_dy (calculateVertexDisplacements
                   (runUpdates (map (Pair zeroForce) pids) (reset e)) ! j) = 0"
proof -
  let ?e0 = "reset e"
  let ?en = "runUpdates (map (Pair zeroForce) pids) ?e0"
  have q0: "quiet ?e0" by (rule reset_quiet[OF assms(1,3)])
  note rn = runUpdates_quiet[OF q0, of pids]
  then have qn: "quiet ?en" by blast
  have c: "calculateVertexDisplacements ?en = calculateVertexDisplacements ?e0"
    using rn by (intro displacements_cong) simp_all
  have "calculateVertexDisplacements (snd (update zeroForce pid ?en))
          = calculateVertexDisplacements ?en"
    using update_quiet(2-4)[OF qn, of pid] by (intro displacements_cong) simp_all
  then have f: "fst (update zeroForce pid ?en) = calculateVertexDisplacements ?e0"
    by (simp add: update_returns_displacements c)
  have "length (vertices ?en) = length (vertices e)"
    using rn by (simp add: reset_def)
  with assms(4) have "j < length (vertices ?en)" by simp
  from displacements_rest[OF qn this] rn c f show ?thesis
    by (simp add: reset_fields zeroVec_def)
qed

lemma ex_moved_fields:
  "maxDisplacement ex_moved = 25" "mass ex_moved = 1" "pressPoints ex_moved = []"
  "vertices ex_moved = [ex_vertex]"
  by (simp_all add: ex_moved_def update_state updatePressState_fields
      updatePressState_empty ex_engine_fields)
     (simp add: ex_engine_def addRegion_def newEngine_def Let_def)

lemma ex_moved_regions:
  "regions ex_moved =
     [\<lparr>reg_x = 0.3, reg_y = 0.3, width = 0.4, height = 0.4,
       position = \<lparr>vec_x = 25, vec_y = 0\<rparr>, velocity = \<lparr>vec_x = 400, vec_y = 0\<rparr>,
       stiffness = 0.056, damping = 0.874, delayFrames = 0, phaseOffset = 0\<rparr>]"
proof -
  have "length (regions ex_moved) = 1"
    by (simp add: ex_moved_def update_regions_length ex_engine_regions)
  then have "regions ex_moved = [regions ex_moved ! 0]"
    by (cases "regions ex_moved") simp_all
  then show ?thesis unfolding ex_moved_def ex_push_region .
qed

text \<open>
  The theorem at the engine whose region was moved to position \<open>(25, 0)\<close> with
  velocity \<open>(400, 0)\<close>, for two steps.
\<close>

theorem reset_then_zero_steps_witness:
  "0 \<le> maxDisplacement ex_moved \<and> mass ex_moved \<noteq> 0 \<and> pressPoints ex_moved = []
   \<and> 0 < length (vertices ex_moved)
   \<and> position (regions ex_moved ! 0) = \<lparr>vec_x = 25, vec_y = 0\<rparr>
   \<and> regions (runUpdates (map (Pair zeroForce) [None, None]) (reset ex_moved)) =
       [\<lparr>reg_x = 0.3, reg_y = 0.3, width = 0.4, height = 0.4,
         position = \<lparr>vec_x = 0, vec_y = 0\<rparr>, velocity = \<lparr>vec_x = 0, vec_y = 0\<rparr>,
         stiffness = 0.056, damping = 0.874, delayFrames = 0, phaseOffset = 0\<rparr>]
   \<and> smp_dx (calculateVertexDisplacements
               (runUpdates (map (Pair zeroForce) [None, None]) (reset ex_moved)) ! 0) = 0
   \<and> smp_dy (calculateVertexDisplacements
               (runUpdates (map (Pair zeroForce) [None, None]) (reset ex_moved)) ! 0) = 0"
proof -
  have h1: "0 \<le> maxDisplacement ex_moved" and h2: "mass ex_moved \<noteq> 0"
    and h3: "pressPoints ex_moved = []" and h4: "0 < length (vertices ex_moved)"
    by (simp_all add: ex_moved_fields)
  note t = reset_then_zero_steps_stays_at_rest[OF h1 h2 h3 h4, where pids = "[None, None]"
      and pid = None]
  have p: "position (regions ex_moved ! 0) = \<lparr>vec_x = 25, vec_y = 0\<rparr>"
    by (simp add: ex_moved_regions)
  have "regions (runUpdates (map (Pair zeroForce) [None, None]) (reset ex_moved))
          = map (\<lambda>r. r\<lparr>position := \<lparr>vec_x = 0, vec_y = 0\<rparr>,
                         velocity := \<lparr>vec_x = 0, vec_y = 0\<rparr>\<rparr>) (regions ex_moved)"
    using t by simp
  then have r: "regions (runUpdates (map (Pair zeroForce) [None, None]) (reset ex_moved)) =
       [\<lparr>reg_x = 0.3, reg_y = 0.3, width = 0.4, height = 0.4,
         position = \<lparr>vec_x = 0, vec_y = 0\<rparr>, velocity = \<lparr>vec_x = 0, vec_y = 0\<rparr>,
         stiffness = 0.056, damping = 0.874, delayFrames = 0, phaseOffset = 0\<rparr>]"
    unfolding ex_moved_regions by simp
  from t have d: "smp_dx (calculateVertexDisplacements
               (runUpdates (map (Pair zeroForce) [None, None]) (reset ex_moved)) ! 0) = 0
   \<and> smp_dy (calculateVertexDisplacements
               (runUpdates (map (Pair zeroForce) [None, None]) (reset ex_moved)) ! 0) = 0"
    by blast
  from h1 h2 h3 h4 p r d show ?thesis by blast
qed

section \<open>Claims about degenerate geometry (C8)\<close>

lemma js_max_Fin [simp]: "js_max (Fin a) (Fin b) = Fin (max a b)"
  by (simp add: max_def)

lemma js_min_Fin [simp]: "js_min (Fin a) (Fin b) = Fin (min a b)"
  by (simp add: min_def)

lemma js_sub_Fin [simp]: "js_sub (Fin a) (Fin b) = Fin (a - b)"
  by (simp add: js_sub_def)

lemma js_gt_Fin [simp]: "js_gt (Fin a) (Fin b) = (b < a)"
  by (simp add: js_gt_def)

lemma js_div_Fin: "b \<noteq> 0 \<Longrightarrow> js_div (Fin a) (Fin b) = Fin (a / b)"
  by simp

lemma js_div_guarded: "0.001 < d \<Longrightarrow> js_div (Fin a) (Fin d) = Fin (a / d)"
  by simp

lemma js_sqrt_Fin: "0 \<le> a \<Longrightarrow> js_sqrt (Fin a) = Fin (sqrt a)"
  by simp

lemma js_sqrt_squares: "js_sqrt (Fin (x * x + y * y)) = Fin (sqrt (x * x + y * y))"
  by (simp add: not_less)

lemma Fin_if: "(if c then Fin a else Fin b) = Fin (if c then a else b)"
  by simp

lemma influence_ieee_refines:
  assumes "proper r"
  shows "calculateRegionInfluence_ieee (Fin px) (Fin py) (lift_region r)
           = Fin (calculateRegionInfluence px py r)"
proof -
  from assms have w: "width r / 2 \<noteq> 0" and h: "height r / 2 \<noteq> 0"
    by (simp_all add: proper_def)
  have two: "(2::real) \<noteq> 0" and fade: "(1.5::real) - 0.6 \<noteq> 0" by simp_all
  show ?thesis
    unfolding calculateRegionInfluence_ieee_def calculateRegionInfluence_def Let_def
      lift_region_def
    by (simp only: region_ieee.simps js_div_Fin[OF two] js_div_Fin[OF w] js_div_Fin[OF h]
        js_div_Fin[OF fade] js_add.simps js_sub_Fin js_mul.simps js_neg.simps js_exp.simps
        js_lt.simps js_max_Fin js_min_Fin js_sqrt_squares Fin_if)
qed

lemma regionStep_ieee_refines:
  assumes "proper r"
  shows "regionStep_ieee (lift_vertex v) (Fin a, Fin b, Fin c) (lift_region r)
           = (case regionStep v (a, b, c) r of (a', b', c') \<Rightarrow> (Fin a', Fin b', Fin c'))"
  using influence_ieee_refines[OF assms, of "baseX v" "baseY v"]
  by (simp add: lift_vertex_def Let_def) (simp add: lift_region_def)

lemma regionFold_ieee_refines:
  assumes "list_all proper rs"
  shows "foldl (regionStep_ieee (lift_vertex v)) (Fin a, Fin b, Fin c) (map lift_region rs)
           = (case foldl (regionStep v) (a, b, c) rs of (a', b', c') \<Rightarrow> (Fin a', Fin b', Fin c'))"
  using assms
proof (induction rs arbitrary: a b c)
  case Nil
  then show ?case by simp
next
  case (Cons r rs)
  obtain a' b' c' where s: "regionStep v (a, b, c) r = (a', b', c')"
    by (cases "regionStep v (a, b, c) r")
  from Cons.prems have p: "proper r" and ps: "list_all proper rs" by simp_all
  show ?case
    using regionStep_ieee_refines[OF p, of v a b c] Cons.IH[OF ps, of a' b' c']
    by (simp add: s del: regionStep.simps regionStep_ieee.simps)
qed

lemma maxFold_ieee_refines:
  assumes "list_all proper rs"
  shows "foldl (\<lambda>m region. js_max m (calculateRegionInfluence_ieee (Fin x) (Fin y) region))
           (Fin m0) (map lift_region rs)
         = Fin (foldl (\<lambda>m region. max m (calculateRegionInfluence x y region)) m0 rs)"
  using assms
  by (induction rs arbitrary: m0) (simp_all add: influence_ieee_refines)

lemma pressStep_ieee_refines:
  assumes "list_all proper rs"
  shows "pressStep_ieee (lift_vertex v) (map lift_region rs) (Fin a, Fin b) (lift_point p)
           = (case pressStep v rs (a, b) p of (a', b') \<Rightarrow> (Fin a', Fin b'))"
proof -
  note m = maxFold_ieee_refines[OF assms]
  define D where "D = sqrt ((baseX v - pp_x p) * (baseX v - pp_x p)
                           + (baseY v - pp_y p) * (baseY v - pp_y p))"
  have c1: "(2::real) * 0.15 * 0.15 \<noteq> 0" and c2: "(2::real) * (0.15 * 0.5) * (0.15 * 0.5) \<noteq> 0"
    by simp_all
  note rules = vertex_ieee.simps point_ieee.simps js_gt_Fin js_lt.simps js_sub_Fin js_mul.simps
    js_add.simps js_neg.simps js_exp.simps js_sqrt_squares js_div_Fin[OF c1] js_div_Fin[OF c2]
    if_distrib[of "case_prod (\<lambda>a' b'. (Fin a', Fin b'))"] prod.case if_True if_False m
  show ?thesis
  proof (cases "0.001 < D")
    case True
    then have nz: "D \<noteq> 0" by simp
    show ?thesis
      unfolding pressStep_ieee.simps pressStep.simps Let_def lift_vertex_def lift_point_def
      by (simp only: rules js_div_Fin[OF nz[unfolded D_def]] True[unfolded D_def])
  next
    case False
    show ?thesis
      unfolding pressStep_ieee.simps pressStep.simps Let_def lift_vertex_def lift_point_def
      by (simp only: rules False[unfolded D_def])
  qed
qed

lemma pressFold_ieee_refines:
  assumes "list_all proper rs"
  shows "foldl (pressStep_ieee (lift_vertex v) (map lift_region rs)) (Fin a, Fin b)
           (map lift_point ps)
         = (case foldl (pressStep v rs) (a, b) ps of (a', b') \<Rightarrow> (Fin a', Fin b'))"
proof (induction ps arbitrary: a b)
  case Nil
  then show ?case by simp
next
  case (Cons p ps)
  obtain a' b' where s: "pressStep v rs (a, b) p = (a', b')"
    by (cases "pressStep v rs (a, b) p")
  show ?case
    using pressStep_ieee_refines[OF assms, of v a b p] Cons.IH[of a' b']
    by (simp add: s del: pressStep.simps pressStep_ieee.simps)
qed

lemma vertexDisplacement_ieee_refines:
  assumes "list_all proper (regions e)"
  shows "vertexDisplacement_ieee (map lift_region (regions e))
           (map lift_point (map snd (pressPoints e))) (lift_vertex v)
         = lift_sample (vertexDisplacement e v)"
proof -
  obtain a b c where r: "foldl (regionStep v) (0, 0, 0) (regions e) = (a, b, c)"
    by (cases "foldl (regionStep v) (0, 0, 0) (regions e)")
  obtain a' b' where p: "foldl (pressStep v (regions e)) (a, b) (map snd (pressPoints e)) = (a', b')"
    by (cases "foldl (pressStep v (regions e)) (a, b) (map snd (pressPoints e))")
  have r': "foldl (regionStep_ieee (lift_vertex v)) (Fin 0, Fin 0, Fin 0)
              (map lift_region (regions e)) = (Fin a, Fin b, Fin c)"
    using regionFold_ieee_refines[OF assms, of v 0 0 0] by (simp add: r)
  have p': "foldl (pressStep_ieee (lift_vertex v) (map lift_region (regions e))) (Fin a, Fin b)
              (map lift_point (map snd (pressPoints e))) = (Fin a', Fin b')"
    using pressFold_ieee_refines[OF assms, of v a b "map snd (pressPoints e)"] by (simp add: p)
  show ?thesis
    unfolding vertexDisplacement_ieee_def vertexDisplacement_def Let_def r r' p p' prod.case
      lift_sample_def
    by (simp add: lift_vertex_def)
qed

lemma degenerate_triangle_skipped:
  "\<bar>(sx0 - sx2) * (sy1 - sy2) - (sx1 - sx2) * (sy0 - sy2)\<bar> < 0.001 \<Longrightarrow>
   drawTexturedTriangle sx0 sy0 sx1 sy1 sx2 sy2 dx0 dy0 dx1 dy1 dx2 dy2 = None"
  by (simp add: drawTexturedTriangle_def)

lemma displacement_finite_for_proper_regions:
  assumes "list_all proper (regions (e :: engine))"
  shows "js_finite (ie_dx (vertexDisplacement_ieee (map lift_region (regions e))
                     (map lift_point (map snd (pressPoints e))) (lift_vertex v)))
       \<and> js_finite (ie_dy (vertexDisplacement_ieee (map lift_region (regions e))
                     (map lift_point (map snd (pressPoints e))) (lift_vertex v)))"
  unfolding vertexDisplacement_ieee_refines[OF assms] by (simp add: lift_sample_def)

lemma ex_flat_influence:
  "calculateRegionInfluence_ieee (Fin 1) (Fin 0.5) ex_flat_region = NaN"
  by (simp add: calculateRegionInfluence_ieee_def ex_flat_region_def js_sub_def Let_def)

text \<open>
  C8 at a failing input. \<open>calculateRegionInfluence\<close> has no check for a zero width
  or height: for the region of width \<open>0\<close> the influence at a vertex on its vertical
  axis is \<open>0 / 0\<close>, that is NaN. The NaN passes the gate
  \<open>regionInfluence < 0.01\<close> of the press-point loop, and the sample of the vertex gets
  \<open>dy = NaN\<close>, which the threshold test leaves as it is.
\<close>

theorem zero_width_region_gives_nan:
  "ie_width ex_flat_region = Fin 0
   \<and> calculateRegionInfluence_ieee (ie_baseX ex_edge_vertex) (ie_baseY ex_edge_vertex)
        ex_flat_region = NaN
   \<and> ie_dy (vertexDisplacement_ieee [ex_flat_region] [ex_edge_press] ex_edge_vertex) = NaN
   \<and> \<not> js_finite (ie_dy (vertexDisplacement_ieee [ex_flat_region] [ex_edge_press] ex_edge_vertex))"
proof -
  have i: "calculateRegionInfluence_ieee (ie_baseX ex_edge_vertex) (ie_baseY ex_edge_vertex)
        ex_flat_region = NaN"
    using ex_flat_influence by (simp add: ex_edge_vertex_def)
  have r: "regionStep_ieee ex_edge_vertex (Fin 0, Fin 0, Fin 0) ex_flat_region
             = (Fin 0, Fin 0, Fin 0)"
    by (simp add: i js_gt_def)
  have p: "pressStep_ieee ex_edge_vertex [ex_flat_region] (Fin 0, Fin 0) ex_edge_press
             = (Fin 0, NaN)"
    by (simp add: i js_gt_def js_sub_def Let_def ex_edge_press_def)
       (simp add: ex_edge_vertex_def)
  have d: "ie_dy (vertexDisplacement_ieee [ex_flat_region] [ex_edge_press] ex_edge_vertex) = NaN"
    by (simp add: vertexDisplacement_ieee_def r p Let_def
        del: regionStep_ieee.simps pressStep_ieee.simps)
  from i d show ?thesis by (simp add: ex_flat_region_def)
qed

end
